theory Spec2Isabelle
  imports Main
begin

section \<open>The price API of \<^verbatim>\<open>api/api.go\<close>: virtual clock, refresh daemon and coin catalog\<close>

text \<open>
  The development follows \<^verbatim>\<open>src/api/api.go\<close>. The struct \<^verbatim>\<open>Api\<close> is a record, each
  method with the receiver \<^verbatim>\<open>(a *Api)\<close> takes the record and returns it updated, the
  outside world (the upstream HTTP server, the sleeping goroutine, the log) is an explicit
  value threaded next to it, and the two \<^verbatim>\<open>for\<close> loops without a bound are partial
  functions into \<open>option\<close>, where \<open>None\<close> means that the loop does not return.
\<close>

subsection \<open>Library values: errors, durations, instants, formatting\<close>

text \<open>A Go \<^verbatim>\<open>error\<close> value carries its message; the \<^verbatim>\<open>nil\<close> error is \<open>None\<close>.\<close>

datatype error = Error string

definition errors_New :: "string \<Rightarrow> error" where
  "errors_New msg = Error msg"

text \<open>
  Conversion to a signed integer of 64 or 32 bits: the value modulo \<open>2\<^sup>6\<^sup>4\<close> (or \<open>2\<^sup>3\<^sup>2\<close>),
  taken in the signed range. Go's arithmetic on \<^verbatim>\<open>int64\<close> wraps around in this way.
\<close>

definition int64 :: "int \<Rightarrow> int" where
  "int64 x = (x + 9223372036854775808) mod 18446744073709551616 - 9223372036854775808"

definition int32 :: "int \<Rightarrow> int" where
  "int32 x = (x + 2147483648) mod 4294967296 - 2147483648"

text \<open>Go's \<^verbatim>\<open>/\<close> and \<^verbatim>\<open>%\<close> on integers truncate toward zero.\<close>

definition quot :: "int \<Rightarrow> int \<Rightarrow> int" where
  "quot a b = sgn a * sgn b * (\<bar>a\<bar> div \<bar>b\<bar>)"

definition rem :: "int \<Rightarrow> int \<Rightarrow> int" where
  "rem a b = a - b * quot a b"

text \<open>
  \<^verbatim>\<open>time.Duration\<close> is an \<^verbatim>\<open>int64\<close> count of nanoseconds. The code builds durations from
  the constants below only, all far inside that range.
\<close>

type_synonym Duration = int

definition Nanosecond :: Duration where
  "Nanosecond = 1"

definition Second :: Duration where
  "Second = 1000000000 * Nanosecond"

definition Minute :: Duration where
  "Minute = 60 * Second"

definition Hour :: Duration where
  "Hour = 60 * Minute"

definition January :: int where
  "January = 1"

datatype Location = UTC

text \<open>
  A \<^verbatim>\<open>time.Time\<close> without a monotonic clock reading, which is what \<^verbatim>\<open>time.Date\<close> returns
  and \<^verbatim>\<open>Add\<close> keeps: the field \<^verbatim>\<open>ext\<close> is an \<^verbatim>\<open>int64\<close>, the seconds since January 1 of
  the year 1, and \<open>nsec\<close> is the nanosecond within the second, which the library keeps in
  the low bits of \<^verbatim>\<open>wall\<close>.
\<close>

record Time =
  ext :: int
  nsec :: int

text \<open>The seconds from January 1 of the year 1 to January 1, 1970, and back.\<close>

definition unixToInternal :: int where
  "unixToInternal = 62135596800"

definition internalToUnix :: int where
  "internalToUnix = - unixToInternal"

text \<open>
  The instant that a \<^verbatim>\<open>Time\<close> stands for, in nanoseconds since the Unix epoch, as an
  unbounded integer. It is the measure in which dates are compared below; the code does
  not compute it.
\<close>

definition instant :: "Time \<Rightarrow> int" where
  "instant t = (ext t - unixToInternal) * 1000000000 + nsec t"

text \<open>
  Days between 1970-01-01 and a date of the proleptic Gregorian calendar, for a month in
  \<open>1..12\<close>: years are counted from March so that the leap day is the last day of the year,
  and 400-year eras have 146097 days.
\<close>

definition days_from_civil :: "int \<Rightarrow> int \<Rightarrow> int \<Rightarrow> int" where
  "days_from_civil y m d =
     (let y' = (if m \<le> 2 then y - 1 else y);
          era = y' div 400;
          yoe = y' - era * 400;
          doy = (153 * (if 2 < m then m - 3 else m + 9) + 2) div 5 + d - 1;
          doe = yoe * 365 + yoe div 4 - yoe div 100 + doy
      in era * 146097 + doe - 719468)"

text \<open>\<^verbatim>\<open>time.Date(year, month, day, hour, min, sec, nsec, time.UTC)\<close> for arguments in range.\<close>

fun Date :: "int \<Rightarrow> int \<Rightarrow> int \<Rightarrow> int \<Rightarrow> int \<Rightarrow> int \<Rightarrow> int \<Rightarrow> Location \<Rightarrow> Time" where
  "Date year month day hour minute second nanos UTC =
     \<lparr>ext = days_from_civil year month day * 86400 + hour * 3600 + minute * 60 + second
              + unixToInternal,
      nsec = nanos\<rparr>"

declare Date.simps [simp del]

text \<open>
  \<^verbatim>\<open>addSec\<close> of the library: the sum of \<^verbatim>\<open>t.ext\<close> and \<open>d\<close> wraps around as an \<^verbatim>\<open>int64\<close>; when
  it has moved against the sign of \<open>d\<close>, the seconds are set to the largest or the smallest
  value instead.
\<close>

definition addSec :: "Time \<Rightarrow> int \<Rightarrow> Time" where
  "addSec t d =
     (let sum = int64 (ext t + d)
      in if (ext t < sum) = (0 < d) then t\<lparr>ext := sum\<rparr>
         else if 0 < d then t\<lparr>ext := 9223372036854775807\<rparr>
         else t\<lparr>ext := - 9223372036854775807\<rparr>)"

text \<open>
  \<^verbatim>\<open>t.Add(d)\<close>: the duration is split into seconds and nanoseconds, the nanoseconds are
  added and carried, and the seconds go through \<^verbatim>\<open>addSec\<close>.
\<close>

definition Add :: "Time \<Rightarrow> Duration \<Rightarrow> Time" where
  "Add t d =
     (let dsec = quot d 1000000000;
          ns = int32 (nsec t + int32 (rem d 1000000000))
      in if 1000000000 \<le> ns then addSec (t\<lparr>nsec := ns - 1000000000\<rparr>) (int64 (dsec + 1))
         else if ns < 0 then addSec (t\<lparr>nsec := ns + 1000000000\<rparr>) (int64 (dsec - 1))
         else addSec (t\<lparr>nsec := ns\<rparr>) dsec)"

text \<open>
  \<^verbatim>\<open>t.UnixMilli()\<close> is \<^verbatim>\<open>t.unixSec()*1e3 + int64(t.nsec())/1e6\<close> on \<^verbatim>\<open>int64\<close>: each
  operation wraps around.
\<close>

definition unixSec :: "Time \<Rightarrow> int" where
  "unixSec t = int64 (ext t + internalToUnix)"

definition UnixMilli :: "Time \<Rightarrow> int" where
  "UnixMilli t = int64 (int64 (unixSec t * 1000) + quot (nsec t) 1000000)"

text \<open>The verb \<^verbatim>\<open>%v\<close> of \<^verbatim>\<open>fmt\<close> prints an integer in base ten, with a sign when negative.\<close>

function fmt_digits :: "int \<Rightarrow> string" where
  "fmt_digits i =
     (if i < 10 then [''0123456789'' ! nat i]
      else fmt_digits (i div 10) @ [''0123456789'' ! nat (i mod 10)])"
  by pat_completeness auto
termination
  by (relation "measure nat") auto

declare fmt_digits.simps [simp del]

definition fmt_int :: "int \<Rightarrow> string" where
  "fmt_int i = (if i < 0 then CHR ''-'' # fmt_digits (- i) else fmt_digits i)"

text \<open>\<^verbatim>\<open>fmt.Sprintf("%s/coins/%v", base, millis)\<close>.\<close>

definition Sprintf_coins :: "string \<Rightarrow> int \<Rightarrow> string" where
  "Sprintf_coins base millis = base @ ''/coins/'' @ fmt_int millis"

subsection \<open>The data model\<close>

text \<open>
  Modelled from the spec: the declaration of the struct \<^verbatim>\<open>m.Coin\<close>, in the package
  \<^verbatim>\<open>govulnapi/models\<close>, is not among the sources. A coin is an identifier, the string
  field \<^verbatim>\<open>Id\<close> that \<^verbatim>\<open>getCoin\<close> compares, plus price and metadata fields that this file
  only carries along: they are the payload \<open>'p\<close>, a parameter, whose zero value is \<open>0\<close>.
  The zero value of the string \<^verbatim>\<open>Id\<close> is the empty string.
\<close>

record 'p Coin =
  Coin_Id :: string
  payload :: 'p

definition zero_Coin :: "('p::zero) Coin" where
  "zero_Coin = \<lparr>Coin_Id = [], payload = 0\<rparr>"

text \<open>
  The database handle, the router and the JWT handler are opaque to this file: they are
  the type parameters \<open>'db\<close>, \<open>'mux\<close> and \<open>'jwt\<close>.
\<close>

record ('db, 'mux, 'jwt, 'p) Api =
  db :: 'db
  router :: 'mux
  coins :: "'p Coin list"
  currentDate :: Time
  dayDuration :: Duration
  coingeckoBaseUrl :: string
  listenAddress :: string
  jwtAuth :: 'jwt

text \<open>
  What \<^verbatim>\<open>New\<close> calls outside this file, taken as parameters: \<^verbatim>\<open>database.Init\<close>,
  \<^verbatim>\<open>db.GetCoins\<close> (a coin list and an error), \<^verbatim>\<open>chi.NewRouter\<close> and \<^verbatim>\<open>jwtauth.New\<close>
  (algorithm and secret).
\<close>

record ('db, 'mux, 'jwt, 'p) externals =
  database_Init :: "string \<Rightarrow> 'db"
  db_GetCoins :: "'db \<Rightarrow> 'p Coin list \<times> error option"
  chi_NewRouter :: 'mux
  jwtauth_New :: "string \<Rightarrow> string \<Rightarrow> 'jwt"

text \<open>
  \<^verbatim>\<open>New\<close>: the clock starts at 2014-01-01 00:00:00 UTC and a day lasts one minute.
  \<^verbatim>\<open>log.Fatalln(err)\<close> ends the process: the result is \<open>Inl err\<close>.
\<close>

definition New ::
  "('db, 'mux, 'jwt, 'p) externals \<Rightarrow> string \<Rightarrow> string \<Rightarrow> error + ('db, 'mux, 'jwt, 'p) Api"
where
  "New deps listenAddr baseUrl =
     (let db0 = database_Init deps ''api.db'';
          virtualTime = Date 2014 January 1 0 0 0 0 UTC;
          priceRefreshInterval = Minute
      in case db_GetCoins deps db0 of
           (cs, Some err) \<Rightarrow> Inl err
         | (cs, None) \<Rightarrow>
             Inr \<lparr>db = db0,
                  router = chi_NewRouter deps,
                  coins = cs,
                  currentDate = virtualTime,
                  dayDuration = priceRefreshInterval,
                  coingeckoBaseUrl = baseUrl,
                  listenAddress = listenAddr,
                  jwtAuth = jwtauth_New deps ''HS256'' ''safe-secret''\<rparr>)"

subsection \<open>The outside world\<close>

text \<open>
  An HTTP response as \<^verbatim>\<open>refreshCoins\<close> sees it: a status code, which the code never
  reads, and a body. \<^verbatim>\<open>http.Get\<close> returns a response or a transport error.
\<close>

record Response =
  StatusCode :: int
  Body :: string

text \<open>
  The upstream decides the outcome of each call of \<^verbatim>\<open>http.Get\<close> from the number of calls
  made before it and the URL. The decoder \<^verbatim>\<open>json.NewDecoder(body).Decode(&v)\<close> is a
  parameter as well: from the body and the value \<open>v\<close> holds, it gives the value left in
  \<open>v\<close> and the error it returns.
\<close>

type_synonym upstream = "nat \<Rightarrow> string \<Rightarrow> error + Response"
type_synonym 'p decoder = "string \<Rightarrow> 'p Coin list \<Rightarrow> 'p Coin list \<times> error option"

text \<open>What the daemon does to the world: requests, sleeps and log lines, in order.\<close>

datatype event = HttpGet string | Sleep Duration | Log string

record world =
  calls :: nat
  trace :: "event list"

type_synonym ('db, 'mux, 'jwt, 'p) state = "('db, 'mux, 'jwt, 'p) Api \<times> world"

definition emit :: "event list \<Rightarrow> world \<Rightarrow> world" where
  "emit es w = w\<lparr>trace := trace w @ es\<rparr>"

text \<open>\<^verbatim>\<open>r, err = http.Get(url)\<close>: the call is counted and recorded.\<close>

definition http_Get :: "upstream \<Rightarrow> string \<Rightarrow> world \<Rightarrow> (error + Response) \<times> world" where
  "http_Get up url w = (up (calls w) url, emit [HttpGet url] (w\<lparr>calls := Suc (calls w)\<rparr>))"

definition time_Sleep :: "Duration \<Rightarrow> world \<Rightarrow> world" where
  "time_Sleep d w = emit [Sleep d] w"

definition log_Println :: "string \<Rightarrow> world \<Rightarrow> world" where
  "log_Println msg w = emit [Log msg] w"

subsection \<open>\<^verbatim>\<open>refreshCoins\<close>\<close>

text \<open>
  One pass through the body of the retry loop: \<open>Inr\<close> is the \<^verbatim>\<open>break\<close> with the response,
  \<open>Inl\<close> the state after the one-second sleep, from which the loop goes round again.
\<close>

definition attempt ::
  "upstream \<Rightarrow> string \<Rightarrow> ('db, 'mux, 'jwt, 'p) state
     \<Rightarrow> ('db, 'mux, 'jwt, 'p) state + (Response \<times> ('db, 'mux, 'jwt, 'p) state)"
where
  "attempt up url s =
     (case s of (a, w) \<Rightarrow>
        (case http_Get up url w of
           (Inr r, w') \<Rightarrow> Inr (r, (a, w'))
         | (Inl err, w') \<Rightarrow> Inl (a, time_Sleep Second w')))"

text \<open>The retry loop \<^verbatim>\<open>for { ... }\<close>: it has no bound, so it may not return.\<close>

partial_function (option) retry_loop ::
  "upstream \<Rightarrow> string \<Rightarrow> ('db, 'mux, 'jwt, 'p) state
     \<Rightarrow> (Response \<times> ('db, 'mux, 'jwt, 'p) state) option"
where
  "retry_loop up url s =
     (case attempt up url s of
        Inr done \<Rightarrow> Some done
      | Inl s' \<Rightarrow> retry_loop up url s')"

declare retry_loop.simps [code]

text \<open>
  The state in which the loop is after at most \<open>n\<close> passes: \<open>(Some r, s)\<close> when it has
  left with the response \<open>r\<close>, \<open>(None, s)\<close> when all \<open>n\<close> passes failed.
\<close>

fun retry_upto ::
  "nat \<Rightarrow> upstream \<Rightarrow> string \<Rightarrow> ('db, 'mux, 'jwt, 'p) state
     \<Rightarrow> Response option \<times> ('db, 'mux, 'jwt, 'p) state"
where
  "retry_upto 0 up url s = (None, s)"
| "retry_upto (Suc n) up url s =
     (case attempt up url s of
        Inr (r, s') \<Rightarrow> (Some r, s')
      | Inl s' \<Rightarrow> retry_upto n up url s')"

text \<open>
  \<^verbatim>\<open>refreshCoins\<close>: the URL is built once, from the date on entry; the local \<^verbatim>\<open>coins\<close>
  is \<^verbatim>\<open>nil\<close> when the decoder receives it; the error of \<^verbatim>\<open>Decode\<close> is dropped and the
  local is stored in the field whatever it holds.
\<close>

definition refresh_url :: "('db, 'mux, 'jwt, 'p) Api \<Rightarrow> string" where
  "refresh_url a = Sprintf_coins (coingeckoBaseUrl a) (UnixMilli (currentDate a))"

definition publish ::
  "'p decoder \<Rightarrow> Response \<times> ('db, 'mux, 'jwt, 'p) state \<Rightarrow> ('db, 'mux, 'jwt, 'p) state"
where
  "publish dec rs =
     (case rs of (r, (a, w)) \<Rightarrow>
        (case dec (Body r) [] of (cs, err) \<Rightarrow> (a\<lparr>coins := cs\<rparr>, w)))"

definition refreshCoins ::
  "upstream \<Rightarrow> 'p decoder \<Rightarrow> ('db, 'mux, 'jwt, 'p) state \<Rightarrow> ('db, 'mux, 'jwt, 'p) state option"
where
  "refreshCoins up dec s =
     (case retry_loop up (refresh_url (fst s)) s of
        None \<Rightarrow> None
      | Some rs \<Rightarrow> Some (publish dec rs))"

subsection \<open>\<^verbatim>\<open>managePrices\<close>\<close>

text \<open>One pass through the daemon's loop: refresh, advance the date by 24 hours, sleep.\<close>

definition managePrices_body ::
  "upstream \<Rightarrow> 'p decoder \<Rightarrow> ('db, 'mux, 'jwt, 'p) state \<Rightarrow> ('db, 'mux, 'jwt, 'p) state option"
where
  "managePrices_body up dec s =
     (case refreshCoins up dec s of
        None \<Rightarrow> None
      | Some (a, w) \<Rightarrow>
          (let a' = a\<lparr>currentDate := Add (currentDate a) (Hour * 24)\<rparr>
           in Some (a', time_Sleep (dayDuration a') w)))"

text \<open>
  The state after \<open>n\<close> complete passes (ticks) of the loop, \<open>None\<close> when one of them does
  not return.
\<close>

fun ticks ::
  "nat \<Rightarrow> upstream \<Rightarrow> 'p decoder \<Rightarrow> ('db, 'mux, 'jwt, 'p) state
     \<Rightarrow> ('db, 'mux, 'jwt, 'p) state option"
where
  "ticks 0 up dec s = Some s"
| "ticks (Suc n) up dec s =
     (case managePrices_body up dec s of
        None \<Rightarrow> None
      | Some s' \<Rightarrow> ticks n up dec s')"

text \<open>The loop itself has no \<^verbatim>\<open>break\<close> and no \<^verbatim>\<open>return\<close>.\<close>

partial_function (option) managePrices_loop ::
  "upstream \<Rightarrow> 'p decoder \<Rightarrow> ('db, 'mux, 'jwt, 'p) state \<Rightarrow> unit option"
where
  "managePrices_loop up dec s =
     (case managePrices_body up dec s of
        None \<Rightarrow> None
      | Some s' \<Rightarrow> managePrices_loop up dec s')"

definition daemon_start :: "('db, 'mux, 'jwt, 'p) state \<Rightarrow> ('db, 'mux, 'jwt, 'p) state" where
  "daemon_start s =
     (case s of (a, w) \<Rightarrow>
        (a, log_Println ''Starting price management daemon with virtual time simulation...'' w))"

definition managePrices ::
  "upstream \<Rightarrow> 'p decoder \<Rightarrow> ('db, 'mux, 'jwt, 'p) state \<Rightarrow> unit option"
where
  "managePrices up dec s = managePrices_loop up dec (daemon_start s)"

text \<open>The daemon's state after its \<open>n\<close>-th tick.\<close>

definition after_ticks ::
  "nat \<Rightarrow> upstream \<Rightarrow> 'p decoder \<Rightarrow> ('db, 'mux, 'jwt, 'p) state
     \<Rightarrow> ('db, 'mux, 'jwt, 'p) state option"
where
  "after_ticks n up dec s = ticks n up dec (daemon_start s)"

subsection \<open>\<^verbatim>\<open>getCoin\<close>\<close>

text \<open>
  The \<^verbatim>\<open>range\<close> loop over \<^verbatim>\<open>a.coins\<close> returns at the first coin whose \<^verbatim>\<open>Id\<close> is the
  one asked for; after the loop the result is the zero coin and a new error.
\<close>

fun getCoin_range :: "('p::zero) Coin list \<Rightarrow> string \<Rightarrow> 'p Coin \<times> error option" where
  "getCoin_range [] coin_id =
     (zero_Coin, Some (errors_New ''Requested coin doesn't exist!''))"
| "getCoin_range (coin # rest) coin_id =
     (if Coin_Id coin = coin_id then (coin, None) else getCoin_range rest coin_id)"

text \<open>The method has a pointer receiver: it returns its results and the \<^verbatim>\<open>Api\<close> it leaves.\<close>

definition getCoin ::
  "('db, 'mux, 'jwt, 'p::zero) Api \<Rightarrow> string
     \<Rightarrow> ('p Coin \<times> error option) \<times> ('db, 'mux, 'jwt, 'p) Api"
where
  "getCoin a coin_id = (getCoin_range (coins a) coin_id, a)"

subsection \<open>Traces and sample values\<close>

text \<open>The world after \<open>k\<close> failed passes of the retry loop for \<open>url\<close>: \<open>k\<close> more calls, each
  followed by the one-second sleep.\<close>

definition failed_prefix :: "nat \<Rightarrow> string \<Rightarrow> world \<Rightarrow> world" where
  "failed_prefix k url w =
     w\<lparr>calls := calls w + k,
       trace := trace w @ concat (replicate k [HttpGet url, Sleep Second])\<rparr>"

text \<open>
  Sample values, on which the statements below are evaluated: a constructor environment
  whose database holds no coin, the \<^verbatim>\<open>Api\<close> it gives, two coins, a catalog holding one
  identifier twice, upstream servers (one refuses the first two connections, one refuses
  all, one answers 404 with a body that is no JSON) and a decoder that knows one body.
\<close>

definition sample_ext :: "(unit, unit, unit, int) externals" where
  "sample_ext =
     \<lparr>database_Init = (\<lambda>path. ()),
      db_GetCoins = (\<lambda>d. ([], None)),
      chi_NewRouter = (),
      jwtauth_New = (\<lambda>alg secret. ())\<rparr>"

definition sample_api :: "(unit, unit, unit, int) Api" where
  "sample_api =
     \<lparr>db = (), router = (), coins = [],
      currentDate = \<lparr>ext = 63524131200, nsec = 0\<rparr>, dayDuration = 60000000000,
      coingeckoBaseUrl = ''http://upstream'', listenAddress = '':8080'', jwtAuth = ()\<rparr>"

definition btc :: "int Coin" where
  "btc = \<lparr>Coin_Id = ''btc'', payload = 1\<rparr>"

definition eth :: "int Coin" where
  "eth = \<lparr>Coin_Id = ''eth'', payload = 2\<rparr>"

definition btc_later :: "int Coin" where
  "btc_later = \<lparr>Coin_Id = ''btc'', payload = 3\<rparr>"

definition world0 :: world where
  "world0 = \<lparr>calls = 0, trace = []\<rparr>"

definition ok_response :: Response where
  "ok_response = \<lparr>StatusCode = 200, Body = ''[btc,eth]''\<rparr>"

definition not_found_response :: Response where
  "not_found_response = \<lparr>StatusCode = 404, Body = ''404 page not found''\<rparr>"

definition flaky_upstream :: upstream where
  "flaky_upstream k url = (if k < 2 then Inl (Error ''connection refused'') else Inr ok_response)"

definition dead_upstream :: upstream where
  "dead_upstream k url = Inl (Error ''connection refused'')"

definition missing_upstream :: upstream where
  "missing_upstream k url = Inr not_found_response"

text \<open>
  A stand-in for the decoder on a body whose second element is a number where a coin is
  expected: the type error is returned, and the list holds the first coin and a zero coin.
\<close>

definition partial_response :: Response where
  "partial_response = \<lparr>StatusCode = 200, Body = ''[btc,7]''\<rparr>"

definition partial_upstream :: upstream where
  "partial_upstream k url = Inr partial_response"

definition partial_decoder :: "int decoder" where
  "partial_decoder body v =
     (if body = ''[btc,7]''
      then ([btc, zero_Coin],
            Some (Error ''json: cannot unmarshal number into Go value of type models.Coin''))
      else ([], Some (Error ''invalid character'')))"

definition sample_decoder :: "int decoder" where
  "sample_decoder body v =
     (if body = ''[btc,eth]'' then ([btc, eth], None)
      else ([], Some (Error ''invalid character'')))"

section \<open>Properties\<close>

subsection \<open>The retry loop\<close>

lemma attempt_fail:
  "up (calls w) url = Inl e \<Longrightarrow>
     attempt up url (a, w) =
       Inl (a, w\<lparr>calls := Suc (calls w), trace := trace w @ [HttpGet url, Sleep Second]\<rparr>)"
  by (simp add: attempt_def http_Get_def time_Sleep_def emit_def)

lemma attempt_ok:
  "up (calls w) url = Inr r \<Longrightarrow>
     attempt up url (a, w) =
       Inr (r, (a, w\<lparr>calls := Suc (calls w), trace := trace w @ [HttpGet url]\<rparr>))"
  by (simp add: attempt_def http_Get_def emit_def)

lemma failed_prefix_0: "failed_prefix 0 url w = w"
  by (simp add: failed_prefix_def)

lemma failed_prefix_Suc:
  "failed_prefix (Suc k) url w =
     failed_prefix k url (w\<lparr>calls := Suc (calls w), trace := trace w @ [HttpGet url, Sleep Second]\<rparr>)"
  by (simp add: failed_prefix_def)

lemma retry_upto_failed:
  "\<forall>j<k. isl (up (calls w + j) url) \<Longrightarrow>
     retry_upto k up url (a, w) = (None, (a, failed_prefix k url w))"
proof (induction k arbitrary: w)
  case 0
  show ?case by (simp add: failed_prefix_0)
next
  case (Suc k)
  from Suc.prems have "isl (up (calls w + 0) url)" by blast
  then obtain e where e: "up (calls w) url = Inl e" by (auto simp: isl_def)
  let ?w = "w\<lparr>calls := Suc (calls w), trace := trace w @ [HttpGet url, Sleep Second]\<rparr>"
  have "\<forall>j<k. isl (up (calls ?w + j) url)"
  proof (intro allI impI)
    fix j assume "j < k"
    then have "isl (up (calls w + Suc j) url)" using Suc.prems by blast
    then show "isl (up (calls ?w + j) url)" by simp
  qed
  then have "retry_upto k up url (a, ?w) = (None, (a, failed_prefix k url ?w))"
    by (rule Suc.IH)
  then show ?case
    by (simp add: attempt_fail [of up w url e a, OF e] failed_prefix_Suc)
qed

lemma retry_loop_failed:
  "\<forall>j<k. isl (up (calls w + j) url) \<Longrightarrow>
     retry_loop up url (a, w) = retry_loop up url (a, failed_prefix k url w)"
proof (induction k arbitrary: w)
  case 0
  show ?case by (simp add: failed_prefix_0)
next
  case (Suc k)
  from Suc.prems have "isl (up (calls w + 0) url)" by blast
  then obtain e where e: "up (calls w) url = Inl e" by (auto simp: isl_def)
  let ?w = "w\<lparr>calls := Suc (calls w), trace := trace w @ [HttpGet url, Sleep Second]\<rparr>"
  have "\<forall>j<k. isl (up (calls ?w + j) url)"
  proof (intro allI impI)
    fix j assume "j < k"
    then have "isl (up (calls w + Suc j) url)" using Suc.prems by blast
    then show "isl (up (calls ?w + j) url)" by simp
  qed
  then have "retry_loop up url (a, ?w) = retry_loop up url (a, failed_prefix k url ?w)"
    by (rule Suc.IH)
  moreover have "retry_loop up url (a, w) = retry_loop up url (a, ?w)"
    by (subst retry_loop.simps) (simp add: attempt_fail [of up w url e a, OF e])
  ultimately show ?case
    by (simp add: failed_prefix_Suc)
qed

lemma retry_loop_succeeds:
  assumes "\<forall>j<k. isl (up (calls w + j) url)" and "up (calls w + k) url = Inr r"
  shows "retry_loop up url (a, w) =
           Some (r, (a, emit [HttpGet url] (failed_prefix k url w\<lparr>calls := Suc (calls w + k)\<rparr>)))"
proof -
  have "up (calls (failed_prefix k url w)) url = Inr r"
    using assms(2) by (simp add: failed_prefix_def)
  then have "retry_loop up url (a, failed_prefix k url w) =
      Some (r, (a, (failed_prefix k url w)\<lparr>calls := Suc (calls (failed_prefix k url w)),
         trace := trace (failed_prefix k url w) @ [HttpGet url]\<rparr>))"
    by (subst retry_loop.simps) (simp add: attempt_ok)
  then show ?thesis
    using retry_loop_failed [of k up w url a, OF assms(1)]
    by (simp add: failed_prefix_def emit_def)
qed

lemma retry_loop_Some_ex:
  fixes s :: "('db, 'mux, 'jwt, 'p) state"
  assumes "retry_loop up url s = Some y"
  shows "\<exists>j. \<not> isl (up (calls (snd s) + j) url)"
proof (rule retry_loop.raw_induct
    [where P = "\<lambda>up url s y. \<exists>j. \<not> isl (up (calls (snd s) + j) url)", OF _ assms])
  fix rl :: "upstream \<Rightarrow> string \<Rightarrow> ('db, 'mux, 'jwt, 'p) state
    \<Rightarrow> (Response \<times> ('db, 'mux, 'jwt, 'p) state) option"
  fix up url s y
  assume IH: "\<And>up url s y. rl up url s = Some y \<Longrightarrow> \<exists>j. \<not> isl (up (calls (snd s) + j) url)"
    and step: "(case attempt up url s of Inl s' \<Rightarrow> rl up url s' | Inr done \<Rightarrow> Some done) = Some y"
  obtain a w where s: "s = (a, w)" by (cases s)
  show "\<exists>j. \<not> isl (up (calls (snd s) + j) url)"
  proof (cases "up (calls w) url")
    case (Inr r)
    then have "\<not> isl (up (calls (snd s) + 0) url)" by (simp add: s)
    then show ?thesis by blast
  next
    case (Inl e)
    let ?w = "w\<lparr>calls := Suc (calls w), trace := trace w @ [HttpGet url, Sleep Second]\<rparr>"
    from step have "rl up url (a, ?w) = Some y"
      by (simp add: s attempt_fail [of up w url e a, OF Inl])
    then obtain j where "\<not> isl (up (calls (snd (a, ?w)) + j) url)"
      using IH by blast
    then have "\<not> isl (up (calls (snd s) + Suc j) url)" by (simp add: s)
    then show ?thesis by blast
  qed
qed

lemma retry_loop_never:
  "\<forall>j. isl (up (calls w + j) url) \<Longrightarrow> retry_loop up url (a, w) = None"
  using retry_loop_Some_ex [of up url "(a, w)"] by (cases "retry_loop up url (a, w)") auto

lemma retry_loop_SomeD:
  assumes "retry_loop up url (a, w) = Some (r, s')"
  shows "\<exists>k. (\<forall>j<k. isl (up (calls w + j) url)) \<and> up (calls w + k) url = Inr r \<and>
              s' = (a, emit [HttpGet url] (failed_prefix k url w\<lparr>calls := Suc (calls w + k)\<rparr>))"
proof -
  from retry_loop_Some_ex [OF assms]
  obtain j where j: "\<not> isl (up (calls w + j) url)" by auto
  define k where "k = (LEAST j. \<not> isl (up (calls w + j) url))"
  have k: "\<not> isl (up (calls w + k) url)"
    unfolding k_def using j by (rule LeastI)
  have less: "\<forall>i<k. isl (up (calls w + i) url)"
    unfolding k_def using not_less_Least by blast
  from k obtain r' where r': "up (calls w + k) url = Inr r'"
    by (cases "up (calls w + k) url") auto
  from retry_loop_succeeds [of k up w url r' a, OF less r'] assms
  have "r' = r" and "s' = (a, emit [HttpGet url] (failed_prefix k url w\<lparr>calls := Suc (calls w + k)\<rparr>))"
    by simp_all
  with less r' show ?thesis by blast
qed

lemma retry_upto_frame: "fst (snd (retry_upto n up url (a, w))) = a"
proof (induction n arbitrary: w)
  case 0
  show ?case by simp
next
  case (Suc n)
  show ?case
  proof (cases "up (calls w) url")
    case (Inl e)
    show ?thesis
      using Suc.IH by (simp add: attempt_fail [of up w url e a, OF Inl])
  next
    case (Inr r)
    show ?thesis
      by (simp add: attempt_ok [of up w url r a, OF Inr])
  qed
qed

lemma retry_upto_trace:
  "\<exists>es. trace (snd (snd (retry_upto n up url (a, w)))) = trace w @ es
         \<and> set es \<subseteq> {HttpGet url, Sleep Second}"
proof (induction n arbitrary: w)
  case 0
  have "trace w = trace w @ [] \<and> set ([] :: event list) \<subseteq> {HttpGet url, Sleep Second}" by simp
  then show ?case unfolding retry_upto.simps snd_conv by blast
next
  case (Suc n)
  show ?case
  proof (cases "up (calls w) url")
    case (Inl e)
    let ?w = "w\<lparr>calls := Suc (calls w), trace := trace w @ [HttpGet url, Sleep Second]\<rparr>"
    from Suc.IH [of ?w] obtain es where
      es: "trace (snd (snd (retry_upto n up url (a, ?w)))) = trace ?w @ es"
        "set es \<subseteq> {HttpGet url, Sleep Second}" by blast
    have "trace (snd (snd (retry_upto (Suc n) up url (a, w)))) = trace w @ ([HttpGet url, Sleep Second] @ es)"
      using es(1) by (simp add: attempt_fail [of up w url e a, OF Inl])
    moreover have "set ([HttpGet url, Sleep Second] @ es) \<subseteq> {HttpGet url, Sleep Second}"
      using es(2) by simp
    ultimately show ?thesis by blast
  next
    case (Inr r)
    have "trace (snd (snd (retry_upto (Suc n) up url (a, w)))) = trace w @ [HttpGet url]"
      by (simp add: attempt_ok [of up w url r a, OF Inr])
    moreover have "set [HttpGet url] \<subseteq> {HttpGet url, Sleep Second}" by simp
    ultimately show ?thesis by blast
  qed
qed

subsection \<open>\<^verbatim>\<open>refreshCoins\<close> and the daemon\<close>

lemma refreshCoins_SomeD:
  assumes "refreshCoins up dec (a, w) = Some (a', w')"
  shows "\<exists>k r. (\<forall>j<k. isl (up (calls w + j) (refresh_url a)))
            \<and> up (calls w + k) (refresh_url a) = Inr r
            \<and> a' = a\<lparr>coins := fst (dec (Body r) [])\<rparr>
            \<and> calls w' = calls w + (k + 1)
            \<and> trace w' = trace w @ concat (replicate k [HttpGet (refresh_url a), Sleep Second])
                  @ [HttpGet (refresh_url a)]"
proof -
  from assms obtain r s' where rl: "retry_loop up (refresh_url a) (a, w) = Some (r, s')"
    and pub: "publish dec (r, s') = (a', w')"
    by (cases "retry_loop up (refresh_url a) (a, w)") (auto simp: refreshCoins_def)
  from retry_loop_SomeD [OF rl] obtain k where
    k: "\<forall>j<k. isl (up (calls w + j) (refresh_url a))" "up (calls w + k) (refresh_url a) = Inr r"
      "s' = (a, emit [HttpGet (refresh_url a)]
                 (failed_prefix k (refresh_url a) w\<lparr>calls := Suc (calls w + k)\<rparr>))"
    by blast
  from pub k(3) have "a' = a\<lparr>coins := fst (dec (Body r) [])\<rparr>"
    and "w' = emit [HttpGet (refresh_url a)]
                 (failed_prefix k (refresh_url a) w\<lparr>calls := Suc (calls w + k)\<rparr>)"
    by (auto simp: publish_def split: prod.splits)
  then have "a' = a\<lparr>coins := fst (dec (Body r) [])\<rparr>"
    and "calls w' = calls w + (k + 1)"
    and "trace w' = trace w @ concat (replicate k [HttpGet (refresh_url a), Sleep Second])
                  @ [HttpGet (refresh_url a)]"
    by (simp_all add: emit_def failed_prefix_def)
  with k(1,2) show ?thesis by blast
qed

lemma refreshCoins_succeeds:
  assumes "\<forall>j<k. isl (up (calls w + j) (refresh_url a))"
    and "up (calls w + k) (refresh_url a) = Inr r"
  shows "refreshCoins up dec (a, w) =
           Some (a\<lparr>coins := fst (dec (Body r) [])\<rparr>,
                 w\<lparr>calls := calls w + (k + 1),
                   trace := trace w @ concat (replicate k [HttpGet (refresh_url a), Sleep Second])
                     @ [HttpGet (refresh_url a)]\<rparr>)"
  using retry_loop_succeeds [of k up w "refresh_url a" r a, OF assms]
  by (simp add: refreshCoins_def publish_def emit_def failed_prefix_def split: prod.splits)

lemma refreshCoins_never:
  "\<forall>j. isl (up (calls w + j) (refresh_url a)) \<Longrightarrow> refreshCoins up dec (a, w) = None"
  using retry_loop_never [of up w "refresh_url a" a] by (simp add: refreshCoins_def)

lemma managePrices_body_SomeD:
  assumes "managePrices_body up dec (a, w) = Some (a', w')"
  shows "\<exists>a1 w1. refreshCoins up dec (a, w) = Some (a1, w1)
           \<and> a' = a1\<lparr>currentDate := Add (currentDate a) (Hour * 24)\<rparr>
           \<and> w' = w1\<lparr>trace := trace w1 @ [Sleep (dayDuration a)]\<rparr>"
proof -
  from assms obtain a1 w1 where r: "refreshCoins up dec (a, w) = Some (a1, w1)"
    by (cases "refreshCoins up dec (a, w)") (auto simp: managePrices_body_def)
  from refreshCoins_SomeD [OF r] have fr: "currentDate a1 = currentDate a" "dayDuration a1 = dayDuration a"
    by auto
  from assms r fr show ?thesis
    by (simp add: managePrices_body_def Let_def time_Sleep_def emit_def)
qed

lemma managePrices_body_fields:
  assumes "managePrices_body up dec (a, w) = Some (a', w')"
  shows "currentDate a' = Add (currentDate a) (Hour * 24)"
    and "dayDuration a' = dayDuration a"
    and "coingeckoBaseUrl a' = coingeckoBaseUrl a"
proof -
  from managePrices_body_SomeD [OF assms] obtain a1 w1 where
    r: "refreshCoins up dec (a, w) = Some (a1, w1)"
    and a': "a' = a1\<lparr>currentDate := Add (currentDate a) (Hour * 24)\<rparr>" by blast
  from refreshCoins_SomeD [OF r] obtain cs where "a1 = a\<lparr>coins := cs\<rparr>" by blast
  with a' show "currentDate a' = Add (currentDate a) (Hour * 24)"
    and "dayDuration a' = dayDuration a"
    and "coingeckoBaseUrl a' = coingeckoBaseUrl a" by simp_all
qed

subsection \<open>Fixed-width arithmetic of the clock\<close>

lemma int64_id:
  "- 9223372036854775808 \<le> x \<Longrightarrow> x \<le> 9223372036854775807 \<Longrightarrow> int64 x = x"
  by (simp add: int64_def)

lemma int64_wrap:
  assumes "9223372036854775808 \<le> x" and "x < 27670116110564327424"
  shows "int64 x = x - 18446744073709551616"
proof -
  have e: "x + 9223372036854775808 = x - 9223372036854775808 + 18446744073709551616"
    by simp
  have "(x + 9223372036854775808) mod 18446744073709551616
          = (x - 9223372036854775808 + 18446744073709551616) mod 18446744073709551616"
    by (simp only: e)
  also have "\<dots> = (x - 9223372036854775808) mod 18446744073709551616"
    by (rule mod_add_self2)
  also have "\<dots> = x - 9223372036854775808"
    using assms by (intro mod_pos_pos_trivial) simp_all
  finally show ?thesis by (simp add: int64_def)
qed

text \<open>Adding 24 hours moves the seconds by 86400, up to the largest \<^verbatim>\<open>int64\<close>.\<close>

lemma Add_day:
  assumes "0 \<le> ext t" and "ext t \<le> 9223372036854775807" and "nsec t = 0"
  shows "Add t (Hour * 24) = \<lparr>ext = min (ext t + 86400) 9223372036854775807, nsec = 0\<rparr>"
proof -
  have q: "quot (Hour * 24) 1000000000 = 86400" "rem (Hour * 24) 1000000000 = 0"
    by (simp_all add: rem_def quot_def Hour_def Minute_def Second_def Nanosecond_def)
  have z: "int32 0 = 0" by (simp add: int32_def)
  obtain e n where t: "t = \<lparr>ext = e, nsec = n\<rparr>" by (cases t) simp
  with assms have e: "0 \<le> e" "e \<le> 9223372036854775807" and n: "n = 0" by simp_all
  have step: "Add t (Hour * 24) = addSec \<lparr>ext = e, nsec = 0\<rparr> 86400"
    by (simp add: Add_def q z t n)
  show ?thesis
  proof (cases "e + 86400 \<le> 9223372036854775807")
    case True
    with e(1) have "int64 (e + 86400) = e + 86400"
      by (intro int64_id) simp_all
    with True e(1) show ?thesis
      unfolding step by (simp add: addSec_def t)
  next
    case False
    with e(2) have "int64 (e + 86400) = e + 86400 - 18446744073709551616"
      by (intro int64_wrap) simp_all
    with False e show ?thesis
      unfolding step by (simp add: addSec_def t)
  qed
qed

lemma ticks_fields:
  "ticks n up dec (a, w) = Some (a', w') \<Longrightarrow>
   0 \<le> ext (currentDate a) \<Longrightarrow> ext (currentDate a) \<le> 9223372036854775807 \<Longrightarrow>
   nsec (currentDate a) = 0 \<Longrightarrow>
     currentDate a' =
       \<lparr>ext = min (ext (currentDate a) + 86400 * int n) 9223372036854775807, nsec = 0\<rparr>
     \<and> dayDuration a' = dayDuration a \<and> coingeckoBaseUrl a' = coingeckoBaseUrl a"
proof (induction n arbitrary: a w)
  case 0
  then show ?case by (cases "currentDate a") simp
next
  case (Suc n)
  from Suc.prems(1) obtain a1 w1 where b: "managePrices_body up dec (a, w) = Some (a1, w1)"
    and t: "ticks n up dec (a1, w1) = Some (a', w')"
    by (cases "managePrices_body up dec (a, w)") auto
  note f = managePrices_body_fields [OF b]
  from f(1) Add_day [OF Suc.prems(2,3,4)]
  have d1: "currentDate a1 = \<lparr>ext = min (ext (currentDate a) + 86400) 9223372036854775807, nsec = 0\<rparr>"
    by simp
  then have r: "0 \<le> ext (currentDate a1)" "ext (currentDate a1) \<le> 9223372036854775807"
    "nsec (currentDate a1) = 0"
    using Suc.prems(2) by simp_all
  from Suc.IH [OF t r] f(2,3) d1 show ?case
    by (simp add: min_def algebra_simps)
qed

lemma ticks_add:
  "ticks (m + k) up dec s = (case ticks m up dec s of None \<Rightarrow> None | Some s' \<Rightarrow> ticks k up dec s')"
  by (induction m arbitrary: s) (auto split: option.splits)

lemma ticks_prefix:
  assumes "ticks n up dec s = Some s'" and "m \<le> n"
  shows "\<exists>a w. ticks m up dec s = Some (a, w) \<and> ticks (n - m) up dec (a, w) = Some s'"
proof -
  from assms(2) have "n = m + (n - m)" by simp
  then have "ticks n up dec s = (case ticks m up dec s of None \<Rightarrow> None | Some s'' \<Rightarrow> ticks (n - m) up dec s'')"
    using ticks_add [of m "n - m" up dec s] by simp
  with assms(1) show ?thesis
    by (cases "ticks m up dec s") auto
qed

lemma managePrices_loop_never:
  fixes s :: "('db, 'mux, 'jwt, 'p) state" and dec :: "'p decoder"
  shows "managePrices_loop up dec s = None"
proof (rule ccontr)
  assume "managePrices_loop up dec s \<noteq> None"
  then obtain y where ret: "managePrices_loop up dec s = Some y" by auto
  show False
  proof (rule managePrices_loop.raw_induct [where P = "\<lambda>up dec s y. False", OF _ ret])
    fix ml :: "upstream \<Rightarrow> 'p decoder \<Rightarrow> ('db, 'mux, 'jwt, 'p) state \<Rightarrow> unit option"
    fix up dec s y
    assume IH: "\<And>up dec s y. ml up dec s = Some y \<Longrightarrow> False"
      and step: "(case managePrices_body up dec s of None \<Rightarrow> None | Some s' \<Rightarrow> ml up dec s') = Some y"
    from step obtain s' where "ml up dec s' = Some y"
      by (cases "managePrices_body up dec s") auto
    then show False by (rule IH)
  qed
qed

lemma managePrices_never_returns:
  fixes s :: "('db, 'mux, 'jwt, 'p) state" and dec :: "'p decoder"
  shows "managePrices up dec s = None"
  by (simp add: managePrices_def managePrices_loop_never)

lemma New_fields:
  "New deps listenAddr baseUrl = Inr a0 \<Longrightarrow>
     currentDate a0 = Date 2014 January 1 0 0 0 0 UTC \<and> dayDuration a0 = Minute
     \<and> coingeckoBaseUrl a0 = baseUrl
     \<and> coins a0 = fst (db_GetCoins deps (database_Init deps ''api.db''))"
  by (auto simp: New_def Let_def split: prod.splits option.splits)

lemma Date_2014: "Date 2014 January 1 0 0 0 0 UTC = \<lparr>ext = 63524131200, nsec = 0\<rparr>"
  by (simp add: Date.simps days_from_civil_def January_def unixToInternal_def)

lemma UnixMilli_in_range:
  assumes "n \<le> 106751975096"
  shows "UnixMilli \<lparr>ext = 63524131200 + 86400 * int n, nsec = 0\<rparr>
           = 1388534400000 + 86400000 * int n"
proof -
  have s: "unixSec \<lparr>ext = 63524131200 + 86400 * int n, nsec = 0\<rparr> = 1388534400 + 86400 * int n"
    using assms by (simp add: unixSec_def internalToUnix_def unixToInternal_def int64_id)
  have "int64 ((1388534400 + 86400 * int n) * 1000) = (1388534400 + 86400 * int n) * 1000"
    using assms by (intro int64_id) simp_all
  then show ?thesis
    using assms by (simp add: UnixMilli_def s quot_def int64_id)
qed

lemma New_sample: "New sample_ext '':8080'' ''http://upstream'' = Inr sample_api"
  by (simp add: New_def sample_ext_def sample_api_def Date_2014 Minute_def Second_def
      Nanosecond_def)

lemma refresh_url_sample: "refresh_url sample_api = ''http://upstream/coins/1388534400000''"
  by (simp add: refresh_url_def sample_api_def Sprintf_coins_def UnixMilli_def unixSec_def
      internalToUnix_def unixToInternal_def int64_def quot_def fmt_int_def fmt_digits.simps)

subsection \<open>Lookup\<close>

lemma getCoin_range_first:
  "\<forall>x\<in>set pre. Coin_Id x \<noteq> coin_id \<Longrightarrow> Coin_Id c = coin_id \<Longrightarrow>
     getCoin_range (pre @ c # post) coin_id = (c, None)"
  by (induction pre) auto

lemma getCoin_range_absent:
  "\<forall>x\<in>set cs. Coin_Id x \<noteq> coin_id \<Longrightarrow>
     getCoin_range cs coin_id = (zero_Coin, Some (Error ''Requested coin doesn't exist!''))"
  by (induction cs) (auto simp: errors_New_def)

text \<open>
  C2. For every catalog and every identifier: when some coin of the catalog has the
  identifier, \<^verbatim>\<open>getCoin\<close> returns the first such coin in catalog order (no coin before it has
  the identifier) and the \<^verbatim>\<open>nil\<close> error; when no coin has it, \<^verbatim>\<open>getCoin\<close> returns an
  error that is not \<^verbatim>\<open>nil\<close>.
\<close>

theorem getCoin_first_match:
  "((\<exists>x\<in>set (coins a). Coin_Id x = coin_id) \<longrightarrow>
      (\<exists>pre c post. coins a = pre @ c # post \<and> Coin_Id c = coin_id
         \<and> (\<forall>x\<in>set pre. Coin_Id x \<noteq> coin_id)
         \<and> fst (getCoin a coin_id) = (c, None)))
   \<and> ((\<forall>x\<in>set (coins a). Coin_Id x \<noteq> coin_id) \<longrightarrow>
      (\<exists>e. snd (fst (getCoin a coin_id)) = Some e))"
proof (intro conjI impI)
  assume "\<exists>x\<in>set (coins a). Coin_Id x = coin_id"
  then obtain pre c post where sp: "coins a = pre @ c # post" "Coin_Id c = coin_id"
    "\<forall>x\<in>set pre. Coin_Id x \<noteq> coin_id"
    using split_list_first_prop [of "coins a" "\<lambda>x. Coin_Id x = coin_id"] by blast
  from getCoin_range_first [OF sp(3) sp(2)] sp(1)
  have "fst (getCoin a coin_id) = (c, None)" by (simp add: getCoin_def)
  with sp show "\<exists>pre c post. coins a = pre @ c # post \<and> Coin_Id c = coin_id
         \<and> (\<forall>x\<in>set pre. Coin_Id x \<noteq> coin_id)
         \<and> fst (getCoin a coin_id) = (c, None)" by blast
next
  assume "\<forall>x\<in>set (coins a). Coin_Id x \<noteq> coin_id"
  from getCoin_range_absent [OF this]
  show "\<exists>e. snd (fst (getCoin a coin_id)) = Some e" by (simp add: getCoin_def)
qed

text \<open>In the catalog \<open>[btc, eth]\<close>, \<open>eth\<close> is found and \<open>ltc\<close> is not.\<close>

theorem getCoin_first_match_witness:
  "''eth'' \<in> Coin_Id ` set (coins (sample_api\<lparr>coins := [btc, eth]\<rparr>))
   \<and> fst (getCoin (sample_api\<lparr>coins := [btc, eth]\<rparr>) ''eth'') = (eth, None)
   \<and> ''ltc'' \<notin> Coin_Id ` set (coins (sample_api\<lparr>coins := [btc, eth]\<rparr>))
   \<and> (\<exists>e. snd (fst (getCoin (sample_api\<lparr>coins := [btc, eth]\<rparr>) ''ltc'')) = Some e)"
proof -
  let ?a = "sample_api\<lparr>coins := [btc, eth]\<rparr>"
  have h1: "\<exists>x\<in>set (coins ?a). Coin_Id x = ''eth''" by (simp add: btc_def eth_def)
  have h2: "\<forall>x\<in>set (coins ?a). Coin_Id x \<noteq> ''ltc''" by (simp add: btc_def eth_def)
  from getCoin_first_match [of ?a "''eth''"] h1
  obtain pre c post where sp: "coins ?a = pre @ c # post" "Coin_Id c = ''eth''"
    "\<forall>x\<in>set pre. Coin_Id x \<noteq> ''eth''" "fst (getCoin ?a ''eth'') = (c, None)" by blast
  from sp(1) have "pre = [] \<and> c = btc \<or> pre = [btc] \<and> c = eth"
    by (cases pre) (auto simp: Cons_eq_append_conv)
  with sp(2,3) have "c = eth" by (auto simp: btc_def eth_def)
  with sp(4) have "fst (getCoin ?a ''eth'') = (eth, None)" by simp
  moreover from getCoin_first_match [of ?a "''ltc''"] h2
  have "\<exists>e. snd (fst (getCoin ?a ''ltc'')) = Some e" by blast
  ultimately show ?thesis using h1 h2 by auto
qed

text \<open>
  C10. For an identifier that no coin of the catalog has, \<^verbatim>\<open>getCoin\<close> returns the zero
  \<^verbatim>\<open>Coin\<close> (empty \<^verbatim>\<open>Id\<close>, zero payload) and the error with the message
  \<^verbatim>\<open>Requested coin doesn't exist!\<close>; and for every identifier, present or not, the \<^verbatim>\<open>Api\<close>
  that \<^verbatim>\<open>getCoin\<close> leaves is the one it was given, in all its fields.
\<close>

theorem getCoin_absent:
  "((\<forall>x\<in>set (coins a). Coin_Id x \<noteq> coin_id) \<longrightarrow>
      fst (getCoin a coin_id) =
        (\<lparr>Coin_Id = [], payload = 0\<rparr>, Some (Error ''Requested coin doesn't exist!'')))
   \<and> snd (getCoin a coin_id) = a"
proof (intro conjI impI)
  assume "\<forall>x\<in>set (coins a). Coin_Id x \<noteq> coin_id"
  from getCoin_range_absent [OF this]
  show "fst (getCoin a coin_id) =
        (\<lparr>Coin_Id = [], payload = 0\<rparr>, Some (Error ''Requested coin doesn't exist!''))"
    by (simp add: getCoin_def zero_Coin_def)
next
  show "snd (getCoin a coin_id) = a" by (simp add: getCoin_def)
qed

theorem getCoin_absent_witness:
  "''ltc'' \<notin> Coin_Id ` set (coins (sample_api\<lparr>coins := [btc, eth]\<rparr>))
   \<and> getCoin (sample_api\<lparr>coins := [btc, eth]\<rparr>) ''ltc'' =
       ((\<lparr>Coin_Id = [], payload = 0\<rparr>, Some (Error ''Requested coin doesn't exist!'')),
        sample_api\<lparr>coins := [btc, eth]\<rparr>)"
proof -
  let ?a = "sample_api\<lparr>coins := [btc, eth]\<rparr>"
  have h: "\<forall>x\<in>set (coins ?a). Coin_Id x \<noteq> ''ltc''" by (simp add: btc_def eth_def)
  with getCoin_absent [of ?a "''ltc''"] show ?thesis
    by (auto simp: prod_eq_iff)
qed

text \<open>
  C8, as the claim states it, fails: in the catalog \<open>[btc, eth, btc_later]\<close> the identifier
  \<open>btc\<close> occurs twice, and the lookup returns the earlier entry, not the later one.
\<close>

theorem getCoin_duplicate_counterexample:
  "fst (getCoin (sample_api\<lparr>coins := [btc, eth, btc_later]\<rparr>) ''btc'') = (btc, None)
   \<and> fst (fst (getCoin (sample_api\<lparr>coins := [btc, eth, btc_later]\<rparr>) ''btc'')) \<noteq> btc_later"
  by (simp add: getCoin_def btc_def btc_later_def)

text \<open>
  C8, amended. When a catalog holds two coins with the same identifier, the lookup of that
  identifier resolves to the earlier one: the first match wins. With \<open>c1\<close> the first coin
  of the catalog that has the identifier and \<open>c2\<close> any later coin that has it too,
  \<^verbatim>\<open>getCoin\<close> returns \<open>c1\<close> and no error.
\<close>

theorem getCoin_duplicate_first_wins:
  assumes "coins a = pre @ c1 # mid @ c2 # post"
    and "Coin_Id c1 = coin_id" and "Coin_Id c2 = coin_id"
    and "\<forall>x\<in>set pre. Coin_Id x \<noteq> coin_id"
  shows "fst (getCoin a coin_id) = (c1, None)"
  using getCoin_range_first [OF assms(4) assms(2), of "mid @ c2 # post"] assms(1)
  by (simp add: getCoin_def)

theorem getCoin_duplicate_first_wins_witness:
  "coins (sample_api\<lparr>coins := [btc, eth, btc_later]\<rparr>) = [] @ btc # [eth] @ btc_later # []
   \<and> Coin_Id btc = ''btc'' \<and> Coin_Id btc_later = ''btc''
   \<and> fst (getCoin (sample_api\<lparr>coins := [btc, eth, btc_later]\<rparr>) ''btc'') = (btc, None)"
proof -
  let ?a = "sample_api\<lparr>coins := [btc, eth, btc_later]\<rparr>"
  have h1: "coins ?a = [] @ btc # [eth] @ btc_later # []" by simp
  have h2: "Coin_Id btc = ''btc''" by (simp add: btc_def)
  have h3: "Coin_Id btc_later = ''btc''" by (simp add: btc_later_def)
  have h4: "\<forall>x\<in>set []. Coin_Id x \<noteq> ''btc''" by simp
  from getCoin_duplicate_first_wins [OF h1 h2 h3 h4] h1 h2 h3 show ?thesis by blast
qed

subsection \<open>The retry discipline of \<^verbatim>\<open>refreshCoins\<close>\<close>

text \<open>
  C3. When the first \<open>K\<close> calls of \<^verbatim>\<open>http.Get\<close> made by \<^verbatim>\<open>refreshCoins\<close> fail with a
  transport error and the next one succeeds, \<^verbatim>\<open>refreshCoins\<close> returns, having made exactly
  \<open>K + 1\<close> calls: each failed call is followed by a sleep of one second, and the last
  thing it does to the world is the successful call. When every call fails,
  \<^verbatim>\<open>refreshCoins\<close> does not return.
\<close>

theorem refreshCoins_retry:
  "((\<forall>j<K. isl (up (calls w + j) (refresh_url a)))
       \<and> (\<exists>r. up (calls w + K) (refresh_url a) = Inr r) \<longrightarrow>
     (\<exists>a' w'. refreshCoins up dec (a, w) = Some (a', w')
        \<and> calls w' = calls w + (K + 1)
        \<and> trace w' = trace w @ concat (replicate K [HttpGet (refresh_url a), Sleep Second])
              @ [HttpGet (refresh_url a)]))
   \<and> ((\<forall>j. isl (up (calls w + j) (refresh_url a))) \<longrightarrow> refreshCoins up dec (a, w) = None)"
proof (intro conjI impI)
  assume "(\<forall>j<K. isl (up (calls w + j) (refresh_url a)))
       \<and> (\<exists>r. up (calls w + K) (refresh_url a) = Inr r)"
  then obtain r where f: "\<forall>j<K. isl (up (calls w + j) (refresh_url a))"
    and r: "up (calls w + K) (refresh_url a) = Inr r" by blast
  from refreshCoins_succeeds [of K up w a r dec, OF f r]
  show "\<exists>a' w'. refreshCoins up dec (a, w) = Some (a', w')
        \<and> calls w' = calls w + (K + 1)
        \<and> trace w' = trace w @ concat (replicate K [HttpGet (refresh_url a), Sleep Second])
              @ [HttpGet (refresh_url a)]" by simp
next
  assume "\<forall>j. isl (up (calls w + j) (refresh_url a))"
  then show "refreshCoins up dec (a, w) = None" by (rule refreshCoins_never)
qed

text \<open>
  An upstream that refuses two connections and then answers: three calls and two sleeps.
  An upstream that refuses every connection: no return.
\<close>

theorem refreshCoins_retry_witness:
  "isl (flaky_upstream 0 (refresh_url sample_api))
   \<and> isl (flaky_upstream 1 (refresh_url sample_api))
   \<and> flaky_upstream 2 (refresh_url sample_api) = Inr ok_response
   \<and> (\<exists>a' w'. refreshCoins flaky_upstream sample_decoder (sample_api, world0) = Some (a', w')
        \<and> calls w' = 3
        \<and> trace w' =
            [HttpGet ''http://upstream/coins/1388534400000'', Sleep Second,
             HttpGet ''http://upstream/coins/1388534400000'', Sleep Second,
             HttpGet ''http://upstream/coins/1388534400000''])
   \<and> refreshCoins dead_upstream sample_decoder (sample_api, world0) = None"
proof -
  have f: "\<forall>j<2. isl (flaky_upstream (calls world0 + j) (refresh_url sample_api))"
    by (simp add: flaky_upstream_def world0_def)
  have r: "\<exists>r. flaky_upstream (calls world0 + 2) (refresh_url sample_api) = Inr r"
    by (simp add: flaky_upstream_def)
  have d: "\<forall>j. isl (dead_upstream (calls world0 + j) (refresh_url sample_api))"
    by (simp add: dead_upstream_def)
  from refreshCoins_retry [of 2 flaky_upstream world0 sample_api sample_decoder] f r
  obtain a' w' where "refreshCoins flaky_upstream sample_decoder (sample_api, world0) = Some (a', w')"
    and "calls w' = calls world0 + (2 + 1)"
    and "trace w' = trace world0
           @ concat (replicate 2 [HttpGet (refresh_url sample_api), Sleep Second])
           @ [HttpGet (refresh_url sample_api)]" by blast
  then have "\<exists>a' w'. refreshCoins flaky_upstream sample_decoder (sample_api, world0) = Some (a', w')
        \<and> calls w' = 3
        \<and> trace w' =
            [HttpGet ''http://upstream/coins/1388534400000'', Sleep Second,
             HttpGet ''http://upstream/coins/1388534400000'', Sleep Second,
             HttpGet ''http://upstream/coins/1388534400000'']"
    by (simp add: world0_def refresh_url_sample numeral_2_eq_2)
  moreover from refreshCoins_retry [of 0 dead_upstream world0 sample_api sample_decoder] d
  have "refreshCoins dead_upstream sample_decoder (sample_api, world0) = None" by blast
  ultimately show ?thesis
    by (simp add: flaky_upstream_def)
qed

text \<open>
  C6. While the calls of \<^verbatim>\<open>http.Get\<close> fail, the catalog is the one \<^verbatim>\<open>refreshCoins\<close> was
  entered with: after \<open>n\<close> failed passes of the retry loop the \<^verbatim>\<open>Api\<close> is unchanged in all
  its fields, and after any number of passes, failed or not, the field \<^verbatim>\<open>coins\<close> is
  unchanged. The catalog is written only after a call has succeeded: when \<^verbatim>\<open>refreshCoins\<close>
  returns, some call returned a response after a run of failed calls, and the catalog is
  what the decoder left for the body of that response. The rest of the tick leaves the
  catalog as the refresh published it, so the next refresh is entered with the snapshot
  published last.
\<close>

theorem catalog_kept_while_failing:
  "((\<forall>j<n. isl (up (calls w + j) (refresh_url a))) \<longrightarrow>
      (\<exists>w'. retry_upto n up (refresh_url a) (a, w) = (None, (a, w'))))
   \<and> coins (fst (snd (retry_upto n up (refresh_url a) (a, w)))) = coins a
   \<and> (\<forall>a' w'. refreshCoins up dec (a, w) = Some (a', w') \<longrightarrow>
        (\<exists>k r. (\<forall>j<k. isl (up (calls w + j) (refresh_url a)))
           \<and> up (calls w + k) (refresh_url a) = Inr r
           \<and> coins a' = fst (dec (Body r) [])))
   \<and> (\<forall>a' w'. managePrices_body up dec (a, w) = Some (a', w') \<longrightarrow>
        (\<exists>a1 w1. refreshCoins up dec (a, w) = Some (a1, w1) \<and> coins a' = coins a1))"
proof (intro conjI impI allI)
  assume "\<forall>j<n. isl (up (calls w + j) (refresh_url a))"
  from retry_upto_failed [of n up w "refresh_url a" a, OF this]
  show "\<exists>w'. retry_upto n up (refresh_url a) (a, w) = (None, (a, w'))" by blast
next
  show "coins (fst (snd (retry_upto n up (refresh_url a) (a, w)))) = coins a"
    by (simp add: retry_upto_frame)
next
  fix a' w'
  assume "refreshCoins up dec (a, w) = Some (a', w')"
  from refreshCoins_SomeD [OF this] obtain k r where
    "\<forall>j<k. isl (up (calls w + j) (refresh_url a))"
    "up (calls w + k) (refresh_url a) = Inr r"
    "a' = a\<lparr>coins := fst (dec (Body r) [])\<rparr>" by blast
  then have "(\<forall>j<k. isl (up (calls w + j) (refresh_url a)))
           \<and> up (calls w + k) (refresh_url a) = Inr r
           \<and> coins a' = fst (dec (Body r) [])" by simp
  then show "\<exists>k r. (\<forall>j<k. isl (up (calls w + j) (refresh_url a)))
           \<and> up (calls w + k) (refresh_url a) = Inr r
           \<and> coins a' = fst (dec (Body r) [])" by blast
next
  fix a' w'
  assume "managePrices_body up dec (a, w) = Some (a', w')"
  from managePrices_body_SomeD [OF this] obtain a1 w1 where
    "refreshCoins up dec (a, w) = Some (a1, w1)"
    "a' = a1\<lparr>currentDate := Add (currentDate a) (Hour * 24)\<rparr>" by blast
  then have "refreshCoins up dec (a, w) = Some (a1, w1) \<and> coins a' = coins a1" by simp
  then show "\<exists>a1 w1. refreshCoins up dec (a, w) = Some (a1, w1) \<and> coins a' = coins a1"
    by blast
qed

text \<open>
  With the catalog \<open>[btc]\<close> and the upstream that refuses two connections: after both
  failed passes the catalog is still \<open>[btc]\<close>, and the refresh that returns has stored the
  list decoded from the third call's response.
\<close>

theorem catalog_kept_while_failing_witness:
  "isl (flaky_upstream 0 (refresh_url (sample_api\<lparr>coins := [btc]\<rparr>)))
   \<and> isl (flaky_upstream 1 (refresh_url (sample_api\<lparr>coins := [btc]\<rparr>)))
   \<and> (\<exists>w'. retry_upto 2 flaky_upstream (refresh_url (sample_api\<lparr>coins := [btc]\<rparr>))
               (sample_api\<lparr>coins := [btc]\<rparr>, world0) = (None, (sample_api\<lparr>coins := [btc]\<rparr>, w')))
   \<and> refreshCoins flaky_upstream sample_decoder (sample_api\<lparr>coins := [btc]\<rparr>, world0) =
       Some (sample_api\<lparr>coins := [btc, eth]\<rparr>,
             \<lparr>calls = 3,
              trace = [HttpGet ''http://upstream/coins/1388534400000'', Sleep 1000000000,
                       HttpGet ''http://upstream/coins/1388534400000'', Sleep 1000000000,
                       HttpGet ''http://upstream/coins/1388534400000'']\<rparr>)
   \<and> (\<exists>k r. flaky_upstream k (refresh_url (sample_api\<lparr>coins := [btc]\<rparr>)) = Inr r
          \<and> [btc, eth] = fst (sample_decoder (Body r) []))"
proof -
  let ?a = "sample_api\<lparr>coins := [btc]\<rparr>"
  let ?s' = "(sample_api\<lparr>coins := [btc, eth]\<rparr>,
             \<lparr>calls = 3,
              trace = [HttpGet ''http://upstream/coins/1388534400000'', Sleep 1000000000,
                       HttpGet ''http://upstream/coins/1388534400000'', Sleep 1000000000,
                       HttpGet ''http://upstream/coins/1388534400000'']\<rparr>)"
  have f: "\<forall>j<2. isl (flaky_upstream (calls world0 + j) (refresh_url ?a))"
    by (simp add: flaky_upstream_def world0_def)
  have run: "refreshCoins flaky_upstream sample_decoder (?a, world0) = Some ?s'"
    by code_simp
  note inst = catalog_kept_while_failing [of 2 flaky_upstream world0 ?a sample_decoder]
  from inst f have "\<exists>w'. retry_upto 2 flaky_upstream (refresh_url ?a) (?a, world0) = (None, (?a, w'))"
    by blast
  moreover from inst run
  have "\<exists>k r. (\<forall>j<k. isl (flaky_upstream (calls world0 + j) (refresh_url ?a)))
           \<and> flaky_upstream (calls world0 + k) (refresh_url ?a) = Inr r
           \<and> coins (fst ?s') = fst (sample_decoder (Body r) [])"
    unfolding fst_conv by blast
  then have "\<exists>k r. flaky_upstream k (refresh_url ?a) = Inr r
          \<and> [btc, eth] = fst (sample_decoder (Body r) [])"
    by (auto simp: world0_def)
  ultimately show ?thesis using run
    by (simp add: flaky_upstream_def)
qed

text \<open>
  C7, as the claim states it, fails in its description of the catalog: with the catalog
  \<open>[eth]\<close>, a response whose body makes the decoder fail after it has filled part of the
  list leaves the catalog \<open>[btc, zero_Coin]\<close>, which is neither empty nor the catalog that
  was there before.
\<close>

theorem decode_error_partial_counterexample:
  "snd (partial_decoder (Body partial_response) [])
     = Some (Error ''json: cannot unmarshal number into Go value of type models.Coin'')
   \<and> map_option (coins \<circ> fst)
        (refreshCoins partial_upstream partial_decoder (sample_api\<lparr>coins := [eth]\<rparr>, world0))
       = Some [btc, zero_Coin]
   \<and> [btc, zero_Coin] \<noteq> ([] :: int Coin list)
   \<and> [btc, zero_Coin] \<noteq> coins (sample_api\<lparr>coins := [eth]\<rparr>)"
proof -
  let ?a = "sample_api\<lparr>coins := [eth]\<rparr>"
  have r: "partial_upstream (calls world0 + 0) (refresh_url ?a) = Inr partial_response"
    by (simp add: partial_upstream_def)
  have "\<forall>j<0. isl (partial_upstream (calls world0 + j) (refresh_url ?a))" by simp
  from refreshCoins_succeeds [of 0 partial_upstream world0 ?a partial_response partial_decoder,
      OF this r]
  have "map_option (coins \<circ> fst) (refreshCoins partial_upstream partial_decoder (?a, world0))
       = Some [btc, zero_Coin]"
    by (simp add: partial_decoder_def partial_response_def)
  then show ?thesis
    by (simp add: partial_decoder_def partial_response_def btc_def eth_def zero_Coin_def)
qed

text \<open>
  C7, amended. When the body of the response is malformed, that is, when the decoder
  returns an error, \<^verbatim>\<open>refreshCoins\<close> returns all the same and the error shows nowhere: the
  state it leaves is the state left with any decoder that produces the same list without
  an error. The new catalog is the list that the failed decoding left in the local slice,
  which was \<^verbatim>\<open>nil\<close> before: the empty list when the decoder stored nothing, a partly decoded
  list otherwise. The catalog that was there before is overwritten and has no part in the
  result.
\<close>

theorem decode_error_dropped:
  assumes "\<forall>j<K. isl (up (calls w + j) (refresh_url a))"
    and "up (calls w + K) (refresh_url a) = Inr r"
    and "dec (Body r) [] = (cs, Some e)"
  shows "refreshCoins up dec (a, w) =
           Some (a\<lparr>coins := cs\<rparr>,
                 w\<lparr>calls := calls w + (K + 1),
                   trace := trace w @ concat (replicate K [HttpGet (refresh_url a), Sleep Second])
                     @ [HttpGet (refresh_url a)]\<rparr>)
         \<and> (\<forall>dec'. dec' (Body r) [] = (cs, None) \<longrightarrow>
               refreshCoins up dec' (a, w) = refreshCoins up dec (a, w))
         \<and> (\<forall>old. refreshCoins up dec (a\<lparr>coins := old\<rparr>, w) = refreshCoins up dec (a, w))"
proof -
  have same: "refreshCoins up d (a, w) =
           Some (a\<lparr>coins := cs\<rparr>,
                 w\<lparr>calls := calls w + (K + 1),
                   trace := trace w @ concat (replicate K [HttpGet (refresh_url a), Sleep Second])
                     @ [HttpGet (refresh_url a)]\<rparr>)"
    if "fst (d (Body r) []) = cs" for d :: "'d decoder"
    using refreshCoins_succeeds [of K up w a r d, OF assms(1,2)] that by simp
  have "refreshCoins up dec (a\<lparr>coins := old\<rparr>, w) = refreshCoins up dec (a, w)" for old
  proof -
    have u: "refresh_url (a\<lparr>coins := old\<rparr>) = refresh_url a"
      by (simp add: refresh_url_def)
    from assms(1,2) have "\<forall>j<K. isl (up (calls w + j) (refresh_url (a\<lparr>coins := old\<rparr>)))"
      and "up (calls w + K) (refresh_url (a\<lparr>coins := old\<rparr>)) = Inr r"
      by (simp_all only: u)
    from refreshCoins_succeeds [of K up w "a\<lparr>coins := old\<rparr>" r dec, OF this]
      same [of dec] assms(3)
    show ?thesis by (simp add: u)
  qed
  with same show ?thesis using assms(3) by simp
qed

text \<open>
  The upstream that answers 404 with a body that is no JSON: the decoder fails, the catalog
  \<open>[btc]\<close> is replaced by the empty list, and the refresh returns.
\<close>

theorem decode_error_dropped_witness:
  "missing_upstream 0 (refresh_url (sample_api\<lparr>coins := [btc]\<rparr>)) = Inr not_found_response
   \<and> sample_decoder (Body not_found_response) [] = ([], Some (Error ''invalid character''))
   \<and> refreshCoins missing_upstream sample_decoder (sample_api\<lparr>coins := [btc]\<rparr>, world0) =
       Some (sample_api\<lparr>coins := []\<rparr>,
             \<lparr>calls = 1, trace = [HttpGet ''http://upstream/coins/1388534400000'']\<rparr>)"
proof -
  let ?a = "sample_api\<lparr>coins := [btc]\<rparr>"
  have u: "refresh_url ?a = ''http://upstream/coins/1388534400000''"
    using refresh_url_sample by (simp add: refresh_url_def)
  have h1: "\<forall>j<0. isl (missing_upstream (calls world0 + j) (refresh_url ?a))" by simp
  have h2: "missing_upstream (calls world0 + 0) (refresh_url ?a) = Inr not_found_response"
    by (simp add: missing_upstream_def)
  have h3: "sample_decoder (Body not_found_response) [] = ([], Some (Error ''invalid character''))"
    by (simp add: sample_decoder_def not_found_response_def)
  from decode_error_dropped [of 0 missing_upstream world0 ?a not_found_response sample_decoder,
      OF h1 h2 h3, THEN conjunct1]
  have "refreshCoins missing_upstream sample_decoder (?a, world0) =
       Some (sample_api\<lparr>coins := []\<rparr>,
             \<lparr>calls = 1, trace = [HttpGet ''http://upstream/coins/1388534400000'']\<rparr>)"
    by (simp add: u world0_def)
  with h2 h3 show ?thesis by (simp add: world0_def)
qed

text \<open>
  C9. A call of \<^verbatim>\<open>http.Get\<close> that returns a response ends the retry loop whatever the
  status code is: \<^verbatim>\<open>refreshCoins\<close> returns after that one call without sleeping, and the
  catalog is what the decoder left for the body; a response that differs in its status code
  only leads to the same state. A call that returns a transport error is followed by the
  one-second sleep and a further pass of the loop.
\<close>

theorem status_code_not_read:
  "(up (calls w) (refresh_url a) = Inr r \<longrightarrow>
      refreshCoins up dec (a, w) =
        Some (a\<lparr>coins := fst (dec (Body r) [])\<rparr>,
              w\<lparr>calls := Suc (calls w), trace := trace w @ [HttpGet (refresh_url a)]\<rparr>)
      \<and> (\<forall>up' c. up' (calls w) (refresh_url a) = Inr (r\<lparr>StatusCode := c\<rparr>) \<longrightarrow>
            refreshCoins up' dec (a, w) = refreshCoins up dec (a, w)))
   \<and> (isl (up (calls w) (refresh_url a)) \<longrightarrow>
        refreshCoins up dec (a, w) =
          refreshCoins up dec
            (a, w\<lparr>calls := Suc (calls w),
                  trace := trace w @ [HttpGet (refresh_url a), Sleep Second]\<rparr>))"
proof (intro conjI impI allI)
  assume r: "up (calls w) (refresh_url a) = Inr r"
  have one: "refreshCoins u dec (a, w) =
        Some (a\<lparr>coins := fst (dec (Body r') [])\<rparr>,
              w\<lparr>calls := Suc (calls w), trace := trace w @ [HttpGet (refresh_url a)]\<rparr>)"
    if "u (calls w) (refresh_url a) = Inr r'" for u r'
    using refreshCoins_succeeds [of 0 u w a r' dec] that by simp
  from one [of up r, OF r] show "refreshCoins up dec (a, w) =
        Some (a\<lparr>coins := fst (dec (Body r) [])\<rparr>,
              w\<lparr>calls := Suc (calls w), trace := trace w @ [HttpGet (refresh_url a)]\<rparr>)" .
  fix up' :: upstream and c
  assume "up' (calls w) (refresh_url a) = Inr (r\<lparr>StatusCode := c\<rparr>)"
  from one [of up' "r\<lparr>StatusCode := c\<rparr>", OF this] one [of up r, OF r]
  show "refreshCoins up' dec (a, w) = refreshCoins up dec (a, w)" by simp
next
  assume "isl (up (calls w) (refresh_url a))"
  then obtain e where e: "up (calls w) (refresh_url a) = Inl e" by (auto simp: isl_def)
  have "retry_loop up (refresh_url a) (a, w) =
          retry_loop up (refresh_url a)
            (a, w\<lparr>calls := Suc (calls w),
                  trace := trace w @ [HttpGet (refresh_url a), Sleep Second]\<rparr>)"
    by (subst retry_loop.simps) (simp add: attempt_fail [of up w "refresh_url a" e a, OF e])
  then show "refreshCoins up dec (a, w) =
          refreshCoins up dec
            (a, w\<lparr>calls := Suc (calls w),
                  trace := trace w @ [HttpGet (refresh_url a), Sleep Second]\<rparr>)"
    by (simp add: refreshCoins_def)
qed

text \<open>
  A 404 and a 500 with the same body leave the same state after one call; a refused
  connection leads to a second call.
\<close>

theorem status_code_not_read_witness:
  "missing_upstream 0 (refresh_url sample_api) = Inr not_found_response
   \<and> StatusCode not_found_response = 404
   \<and> refreshCoins missing_upstream sample_decoder (sample_api, world0) =
       Some (sample_api\<lparr>coins := []\<rparr>,
             \<lparr>calls = 1, trace = [HttpGet ''http://upstream/coins/1388534400000'']\<rparr>)
   \<and> refreshCoins (\<lambda>k url. Inr (not_found_response\<lparr>StatusCode := 500\<rparr>)) sample_decoder
         (sample_api, world0) =
       refreshCoins missing_upstream sample_decoder (sample_api, world0)
   \<and> isl (flaky_upstream 0 (refresh_url sample_api))
   \<and> refreshCoins flaky_upstream sample_decoder (sample_api, world0) =
       refreshCoins flaky_upstream sample_decoder
         (sample_api, \<lparr>calls = 1,
            trace = [HttpGet ''http://upstream/coins/1388534400000'', Sleep Second]\<rparr>)"
proof -
  have h1: "missing_upstream (calls world0) (refresh_url sample_api) = Inr not_found_response"
    by (simp add: missing_upstream_def)
  have h3: "isl (flaky_upstream (calls world0) (refresh_url sample_api))"
    by (simp add: flaky_upstream_def world0_def)
  note m = status_code_not_read [of missing_upstream world0 sample_api not_found_response sample_decoder]
  from m h1 have "refreshCoins missing_upstream sample_decoder (sample_api, world0) =
        Some (sample_api\<lparr>coins := fst (sample_decoder (Body not_found_response) [])\<rparr>,
              world0\<lparr>calls := Suc (calls world0),
                trace := trace world0 @ [HttpGet (refresh_url sample_api)]\<rparr>)" by blast
  then have a: "refreshCoins missing_upstream sample_decoder (sample_api, world0) =
       Some (sample_api\<lparr>coins := []\<rparr>,
             \<lparr>calls = 1, trace = [HttpGet ''http://upstream/coins/1388534400000'']\<rparr>)"
    by (simp add: world0_def refresh_url_sample sample_decoder_def not_found_response_def)
  from m h1 have "\<forall>up' c. up' (calls world0) (refresh_url sample_api)
          = Inr (not_found_response\<lparr>StatusCode := c\<rparr>) \<longrightarrow>
        refreshCoins up' sample_decoder (sample_api, world0) =
          refreshCoins missing_upstream sample_decoder (sample_api, world0)" by blast
  from this [rule_format, of "\<lambda>k url. Inr (not_found_response\<lparr>StatusCode := 500\<rparr>)" 500]
  have b: "refreshCoins (\<lambda>k url. Inr (not_found_response\<lparr>StatusCode := 500\<rparr>))
         sample_decoder (sample_api, world0) =
       refreshCoins missing_upstream sample_decoder (sample_api, world0)" by simp
  from status_code_not_read [of flaky_upstream world0 sample_api ok_response sample_decoder] h3
  have "refreshCoins flaky_upstream sample_decoder (sample_api, world0) =
          refreshCoins flaky_upstream sample_decoder
            (sample_api, world0\<lparr>calls := Suc (calls world0),
                  trace := trace world0 @ [HttpGet (refresh_url sample_api), Sleep Second]\<rparr>)"
    by blast
  then have c: "refreshCoins flaky_upstream sample_decoder (sample_api, world0) =
       refreshCoins flaky_upstream sample_decoder
         (sample_api, \<lparr>calls = 1,
            trace = [HttpGet ''http://upstream/coins/1388534400000'', Sleep Second]\<rparr>)"
    by (simp add: world0_def refresh_url_sample)
  from a b c h1 h3 show ?thesis
    by (simp add: world0_def not_found_response_def)
qed

subsection \<open>The virtual clock and the URL of each tick\<close>

lemma after_ticks_fields:
  assumes "New deps listenAddr baseUrl = Inr a0"
    and "after_ticks n up dec (a0, w0) = Some (a, w)"
  shows "currentDate a = \<lparr>ext = min (63524131200 + 86400 * int n) 9223372036854775807, nsec = 0\<rparr>"
    and "dayDuration a = Minute"
    and "coingeckoBaseUrl a = baseUrl"
proof -
  from assms(2) have t: "ticks n up dec
      (a0, log_Println ''Starting price management daemon with virtual time simulation...'' w0)
        = Some (a, w)"
    by (simp add: after_ticks_def daemon_start_def)
  from New_fields [OF assms(1)] Date_2014
  have d0: "currentDate a0 = \<lparr>ext = 63524131200, nsec = 0\<rparr>"
    and f0: "dayDuration a0 = Minute" "coingeckoBaseUrl a0 = baseUrl" by simp_all
  from d0 have r: "0 \<le> ext (currentDate a0)" "ext (currentDate a0) \<le> 9223372036854775807"
    "nsec (currentDate a0) = 0" by simp_all
  from ticks_fields [OF t r] d0 f0
  show "currentDate a = \<lparr>ext = min (63524131200 + 86400 * int n) 9223372036854775807, nsec = 0\<rparr>"
    and "dayDuration a = Minute"
    and "coingeckoBaseUrl a = baseUrl" by simp_all
qed

lemma after_ticks_prefix:
  assumes "after_ticks n up dec s = Some s'" and "m \<le> n"
  shows "\<exists>am wm. after_ticks m up dec s = Some (am, wm)"
  using ticks_prefix [of n up dec "daemon_start s" s' m] assms
  by (auto simp: after_ticks_def)

text \<open>Against an upstream that answers every call, every tick completes.\<close>

lemma ticks_total:
  assumes "\<And>k u. \<exists>r. up k u = Inr r"
  shows "\<exists>a' w'. ticks n up dec (a, w) = Some (a', w')"
proof (induction n arbitrary: a w)
  case 0
  show ?case by simp
next
  case (Suc n)
  from assms obtain r where r: "up (calls w + 0) (refresh_url a) = Inr r" by blast
  have "\<forall>j<0. isl (up (calls w + j) (refresh_url a))" by simp
  from refreshCoins_succeeds [of 0 up w a r dec, OF this r]
  obtain a1 w1 where "refreshCoins up dec (a, w) = Some (a1, w1)" by blast
  then obtain a2 w2 where "managePrices_body up dec (a, w) = Some (a2, w2)"
    by (simp add: managePrices_body_def Let_def)
  with Suc.IH [of a2 w2] show ?case by simp
qed

lemma after_ticks_missing:
  "\<exists>a w. after_ticks n missing_upstream sample_decoder (sample_api, world0) = Some (a, w)"
proof -
  have "\<And>k u. \<exists>r. missing_upstream k u = Inr r" by (simp add: missing_upstream_def)
  from ticks_total [of missing_upstream n sample_decoder, OF this]
  show ?thesis by (simp add: after_ticks_def daemon_start_def)
qed

lemma instant_Date_2014:
  "instant (Date 2014 January 1 0 0 0 0 UTC) = 1388534400000000000"
  by (simp add: Date_2014 instant_def unixToInternal_def)

text \<open>
  C1, as the claim states it, fails: the date is a \<^verbatim>\<open>time.Time\<close>, whose seconds are an
  \<^verbatim>\<open>int64\<close>, and \<^verbatim>\<open>Add\<close> stops at the largest value. Against the upstream that answers every
  call, after 106751990432068 ticks the date stands at the largest instant, which is
  earlier than the initial date plus that many days.
\<close>

theorem clock_saturates_counterexample:
  "map_option (instant \<circ> currentDate \<circ> fst)
      (after_ticks 106751990432068 missing_upstream sample_decoder (sample_api, world0))
     = Some 9223371974719179007000000000
   \<and> instant (Date 2014 January 1 0 0 0 0 UTC) + 106751990432068 * (24 * Hour)
     = 9223371974719209600000000000
   \<and> map_option (instant \<circ> currentDate \<circ> fst)
      (after_ticks 106751990432068 missing_upstream sample_decoder (sample_api, world0))
     \<noteq> Some (instant (Date 2014 January 1 0 0 0 0 UTC) + 106751990432068 * (24 * Hour))"
proof -
  from after_ticks_missing [of 106751990432068] obtain a w where
    run: "after_ticks 106751990432068 missing_upstream sample_decoder (sample_api, world0) = Some (a, w)"
    by blast
  from after_ticks_fields(1) [OF New_sample run]
  have "currentDate a = \<lparr>ext = 9223372036854775807, nsec = 0\<rparr>" by simp
  then have "instant (currentDate a) = 9223371974719179007000000000"
    by (simp add: instant_def unixToInternal_def)
  moreover have "instant (Date 2014 January 1 0 0 0 0 UTC) + 106751990432068 * (24 * Hour)
     = 9223371974719209600000000000"
    by (simp add: instant_Date_2014 Hour_def Minute_def Second_def Nanosecond_def)
  ultimately show ?thesis using run by (simp only: option.map comp_apply fst_conv) simp
qed

text \<open>
  C1, amended. Start from any \<^verbatim>\<open>Api\<close> that \<^verbatim>\<open>New\<close> returns and let the daemon complete \<open>n\<close>
  ticks, against any upstream and any decoder, so whatever the number of failed calls in
  each fetch. As long as \<open>n\<close> is at most 106751990432067, the current date is the instant
  2014-01-01 00:00:00 UTC plus exactly \<open>n\<close> times 24 hours; for a larger \<open>n\<close> the date stands
  at the largest instant that \<^verbatim>\<open>time.Time\<close> holds. For every \<open>n\<close> the date does not move
  backward: after every earlier tick \<open>m \<le> n\<close> the date was not later (and was the initial
  date plus \<open>m\<close> days when \<open>m\<close> is within the bound), and a fetch leaves the date as it is,
  after any number of passes of its retry loop and when it returns.
\<close>

theorem clock_after_ticks:
  assumes "New deps listenAddr baseUrl = Inr a0"
    and "after_ticks n up dec (a0, w0) = Some (a, w)"
  shows "(n \<le> 106751990432067 \<longrightarrow>
            instant (currentDate a)
              = instant (Date 2014 January 1 0 0 0 0 UTC) + int n * (24 * Hour))
     \<and> (106751990432067 < n \<longrightarrow> currentDate a = \<lparr>ext = 9223372036854775807, nsec = 0\<rparr>)
     \<and> (\<forall>m\<le>n. \<exists>am wm. after_ticks m up dec (a0, w0) = Some (am, wm)
           \<and> (m \<le> 106751990432067 \<longrightarrow>
                 instant (currentDate am)
                   = instant (Date 2014 January 1 0 0 0 0 UTC) + int m * (24 * Hour))
           \<and> instant (currentDate am) \<le> instant (currentDate a))
     \<and> (\<forall>k. currentDate (fst (snd (retry_upto k up (refresh_url a) (a, w)))) = currentDate a)
     \<and> (\<forall>a' w'. refreshCoins up dec (a, w) = Some (a', w') \<longrightarrow> currentDate a' = currentDate a)"
proof (intro conjI allI impI)
  have day: "24 * Hour = 86400000000000"
    by (simp add: Hour_def Minute_def Second_def Nanosecond_def)
  have within: "instant (currentDate b)
              = instant (Date 2014 January 1 0 0 0 0 UTC) + int k * (24 * Hour)"
    if "currentDate b = \<lparr>ext = min (63524131200 + 86400 * int k) 9223372036854775807, nsec = 0\<rparr>"
      and "k \<le> 106751990432067" for b :: "('a, 'b, 'c, 'd) Api" and k
  proof -
    from that(2) have "63524131200 + 86400 * int k \<le> 9223372036854775807" by simp
    with that(1) have "currentDate b = \<lparr>ext = 63524131200 + 86400 * int k, nsec = 0\<rparr>"
      by (simp add: min_def)
    then show ?thesis
      unfolding instant_Date_2014 by (simp add: instant_def unixToInternal_def day)
  qed
  note now = after_ticks_fields(1) [OF assms]
  show "instant (currentDate a)
              = instant (Date 2014 January 1 0 0 0 0 UTC) + int n * (24 * Hour)"
    if "n \<le> 106751990432067"
    using within [OF now that] .
  show "currentDate a = \<lparr>ext = 9223372036854775807, nsec = 0\<rparr>" if "106751990432067 < n"
  proof -
    from that have "9223372036854775807 \<le> 63524131200 + 86400 * int n" by simp
    with now show ?thesis by (simp add: min_def)
  qed
  show "\<exists>am wm. after_ticks m up dec (a0, w0) = Some (am, wm)
           \<and> (m \<le> 106751990432067 \<longrightarrow>
                 instant (currentDate am)
                   = instant (Date 2014 January 1 0 0 0 0 UTC) + int m * (24 * Hour))
           \<and> instant (currentDate am) \<le> instant (currentDate a)" if "m \<le> n" for m
  proof -
    from after_ticks_prefix [OF assms(2) that] obtain am wm where
      m: "after_ticks m up dec (a0, w0) = Some (am, wm)" by blast
    note dm = after_ticks_fields(1) [OF assms(1) m]
    from that have "min (63524131200 + 86400 * int m) 9223372036854775807
        \<le> min (63524131200 + 86400 * int n) (9223372036854775807 :: int)"
      by (simp add: min_def)
    with dm now have "instant (currentDate am) \<le> instant (currentDate a)"
      by (simp add: instant_def)
    moreover have "m \<le> 106751990432067 \<longrightarrow>
                 instant (currentDate am)
                   = instant (Date 2014 January 1 0 0 0 0 UTC) + int m * (24 * Hour)"
      using within [OF dm] by blast
    ultimately show ?thesis using m by blast
  qed
  show "currentDate (fst (snd (retry_upto k up (refresh_url a) (a, w)))) = currentDate a" for k
    by (simp add: retry_upto_frame)
  show "currentDate a' = currentDate a" if "refreshCoins up dec (a, w) = Some (a', w')" for a' w'
    using refreshCoins_SomeD [OF that] by auto
qed

text \<open>
  Two ticks against the upstream that refuses the first two connections: the first fetch
  takes three calls, the second one, and the date is 2014-01-03 00:00:00 UTC. And
  106751990432068 ticks against the upstream that answers every call: the date stands at
  the largest instant.
\<close>

theorem clock_after_ticks_witness:
  "New sample_ext '':8080'' ''http://upstream'' = Inr sample_api
   \<and> (\<exists>a w. after_ticks 2 flaky_upstream sample_decoder (sample_api, world0) = Some (a, w)
         \<and> calls w = 4
         \<and> instant (currentDate a)
              = instant (Date 2014 January 1 0 0 0 0 UTC) + 2 * (24 * Hour)
         \<and> currentDate a = Date 2014 January 3 0 0 0 0 UTC)
   \<and> (\<exists>a w. after_ticks 106751990432068 missing_upstream sample_decoder (sample_api, world0)
                 = Some (a, w)
         \<and> currentDate a = \<lparr>ext = 9223372036854775807, nsec = 0\<rparr>)"
proof -
  have "after_ticks 2 flaky_upstream sample_decoder (sample_api, world0) \<noteq> None"
    by code_simp
  then obtain a w where
    run: "after_ticks 2 flaky_upstream sample_decoder (sample_api, world0) = Some (a, w)"
    by auto
  then have c: "calls (snd (the (after_ticks 2 flaky_upstream sample_decoder (sample_api, world0)))) = calls w"
    by simp
  have "calls (snd (the (after_ticks 2 flaky_upstream sample_decoder (sample_api, world0)))) = 4"
    by code_simp
  with c have c4: "calls w = 4" by simp
  have d3: "currentDate (fst (the (after_ticks 2 flaky_upstream sample_decoder (sample_api, world0))))
              = Date 2014 January 3 0 0 0 0 UTC"
    by code_simp
  with run have d3': "currentDate a = Date 2014 January 3 0 0 0 0 UTC" by simp
  from clock_after_ticks [OF New_sample run]
  have "instant (currentDate a)
              = instant (Date 2014 January 1 0 0 0 0 UTC) + int 2 * (24 * Hour)" by simp
  with run c4 d3' have one: "\<exists>a w. after_ticks 2 flaky_upstream sample_decoder (sample_api, world0) = Some (a, w)
         \<and> calls w = 4
         \<and> instant (currentDate a)
              = instant (Date 2014 January 1 0 0 0 0 UTC) + 2 * (24 * Hour)
         \<and> currentDate a = Date 2014 January 3 0 0 0 0 UTC" by simp
  from after_ticks_missing [of 106751990432068] obtain b v where
    big: "after_ticks 106751990432068 missing_upstream sample_decoder (sample_api, world0) = Some (b, v)"
    by blast
  from clock_after_ticks [OF New_sample big]
  have "currentDate b = \<lparr>ext = 9223372036854775807, nsec = 0\<rparr>" by simp
  with big have two: "\<exists>a w. after_ticks 106751990432068 missing_upstream sample_decoder (sample_api, world0)
                 = Some (a, w)
         \<and> currentDate a = \<lparr>ext = 9223372036854775807, nsec = 0\<rparr>" by simp
  from New_sample one two show ?thesis by blast
qed

text \<open>
  C4, as the claim states it, fails: \<^verbatim>\<open>UnixMilli\<close> returns an \<^verbatim>\<open>int64\<close>, which wraps around.
  Against the upstream that answers every call, the fetch that follows 106751975097
  completed ticks requests a negative number, while the milliseconds since the epoch of
  the initial date plus 106751975097 days are 9223372036915200000.
\<close>

theorem fetch_url_wraps_counterexample:
  "map_option (refresh_url \<circ> fst)
      (after_ticks 106751975097 missing_upstream sample_decoder (sample_api, world0))
     = Some ''http://upstream/coins/-9223372036794351616''
   \<and> (instant (Date 2014 January 1 0 0 0 0 UTC) + 106751975097 * (24 * Hour)) div 1000000
     = 9223372036915200000
   \<and> map_option (refresh_url \<circ> fst)
      (after_ticks 106751975097 missing_upstream sample_decoder (sample_api, world0))
     \<noteq> Some (''http://upstream/coins/''
          @ fmt_int ((instant (Date 2014 January 1 0 0 0 0 UTC) + 106751975097 * (24 * Hour))
                       div 1000000))"
proof -
  from after_ticks_missing [of 106751975097] obtain a w where
    run: "after_ticks 106751975097 missing_upstream sample_decoder (sample_api, world0) = Some (a, w)"
    by blast
  note f = after_ticks_fields [OF New_sample run]
  from f(1) have d: "currentDate a = \<lparr>ext = 9223434172512000, nsec = 0\<rparr>" by simp
  have "UnixMilli \<lparr>ext = 9223434172512000, nsec = 0\<rparr> = - 9223372036794351616"
    by (simp add: UnixMilli_def unixSec_def internalToUnix_def unixToInternal_def int64_def
        quot_def)
  with d f(3) have "refresh_url a = ''http://upstream/coins/-9223372036794351616''"
    by (simp add: refresh_url_def Sprintf_coins_def fmt_int_def fmt_digits.simps)
  moreover have ms: "(instant (Date 2014 January 1 0 0 0 0 UTC) + 106751975097 * (24 * Hour))
      div 1000000 = 9223372036915200000"
    by (simp add: instant_Date_2014 Hour_def Minute_def Second_def Nanosecond_def)
  moreover have "fmt_int 9223372036915200000 = ''9223372036915200000''"
    by (simp add: fmt_int_def fmt_digits.simps)
  ultimately show ?thesis using run by (simp only: option.map comp_apply fst_conv) simp
qed

text \<open>
  C4, amended. Start from any \<^verbatim>\<open>Api\<close> that \<^verbatim>\<open>New\<close> returns with the base URL \<open>baseUrl\<close> and
  let the daemon complete \<open>n\<close> ticks. Then tick \<open>n + 1\<close> requests the URL made of \<open>baseUrl\<close>,
  \<^verbatim>\<open>/coins/\<close> and the decimal \<^verbatim>\<open>UnixMilli\<close> of the current date, the date that tick \<open>n\<close>
  advanced to (the initial date for the first tick). As long as \<open>n\<close> is at most
  106751975096, that number is the milliseconds since the epoch of 2014-01-01 UTC plus
  \<open>n\<close> days, which is \<open>1388534400000 + 86400000 * n\<close>; beyond, it is that count wrapped into
  the \<^verbatim>\<open>int64\<close> range, of a date that stops at the largest instant. Every request of the
  tick is a GET of that URL: after any number of passes of the retry loop the tick has
  added to the trace only requests of that URL and one-second sleeps, and a tick that
  completes has added \<open>K\<close> failed requests, each with its sleep, the successful request and
  the sleep of one day's duration.
\<close>

theorem fetch_url_of_tick:
  assumes "New deps listenAddr baseUrl = Inr a0"
    and "after_ticks n up dec (a0, w0) = Some (a, w)"
  shows "(n \<le> 106751975096 \<longrightarrow>
            refresh_url a =
              baseUrl @ ''/coins/''
                @ fmt_int ((instant (Date 2014 January 1 0 0 0 0 UTC) + int n * (24 * Hour))
                             div 1000000)
            \<and> (instant (Date 2014 January 1 0 0 0 0 UTC) + int n * (24 * Hour)) div 1000000
                = 1388534400000 + 86400000 * int n)
     \<and> refresh_url a =
          baseUrl @ ''/coins/''
            @ fmt_int (UnixMilli
                \<lparr>ext = min (63524131200 + 86400 * int n) 9223372036854775807, nsec = 0\<rparr>)
     \<and> (\<forall>k. \<exists>es. trace (snd (snd (retry_upto k up (refresh_url a) (a, w)))) = trace w @ es
              \<and> set es \<subseteq> {HttpGet (refresh_url a), Sleep Second})
     \<and> (\<forall>a' w'. managePrices_body up dec (a, w) = Some (a', w') \<longrightarrow>
          (\<exists>K. trace w' = trace w
                  @ concat (replicate K [HttpGet (refresh_url a), Sleep Second])
                  @ [HttpGet (refresh_url a), Sleep Minute]))"
proof (intro conjI allI impI)
  note f = after_ticks_fields [OF assms]
  show url: "refresh_url a =
          baseUrl @ ''/coins/''
            @ fmt_int (UnixMilli
                \<lparr>ext = min (63524131200 + 86400 * int n) 9223372036854775807, nsec = 0\<rparr>)"
    using f(1,3) by (simp add: refresh_url_def Sprintf_coins_def)
  have ms: "(instant (Date 2014 January 1 0 0 0 0 UTC) + int n * (24 * Hour)) div 1000000
                = 1388534400000 + 86400000 * int n"
  proof -
    have "instant (Date 2014 January 1 0 0 0 0 UTC) + int n * (24 * Hour)
            = (1388534400000 + 86400000 * int n) * 1000000"
      by (simp add: instant_Date_2014 Hour_def Minute_def Second_def Nanosecond_def)
    then show ?thesis by simp
  qed
  show "(instant (Date 2014 January 1 0 0 0 0 UTC) + int n * (24 * Hour)) div 1000000
                = 1388534400000 + 86400000 * int n" if "n \<le> 106751975096"
    by (rule ms)
  show "refresh_url a =
              baseUrl @ ''/coins/''
                @ fmt_int ((instant (Date 2014 January 1 0 0 0 0 UTC) + int n * (24 * Hour))
                             div 1000000)" if "n \<le> 106751975096"
  proof -
    from that have "63524131200 + 86400 * int n \<le> 9223372036854775807" by simp
    then have "min (63524131200 + 86400 * int n) 9223372036854775807
                 = 63524131200 + 86400 * int n" by simp
    with url UnixMilli_in_range [OF that] show ?thesis
      by (simp only: ms)
  qed
  show "\<exists>es. trace (snd (snd (retry_upto k up (refresh_url a) (a, w)))) = trace w @ es
              \<and> set es \<subseteq> {HttpGet (refresh_url a), Sleep Second}" for k
    by (rule retry_upto_trace)
  show "\<exists>K. trace w' = trace w
                  @ concat (replicate K [HttpGet (refresh_url a), Sleep Second])
                  @ [HttpGet (refresh_url a), Sleep Minute]"
    if "managePrices_body up dec (a, w) = Some (a', w')" for a' w'
  proof -
    from managePrices_body_SomeD [OF that] obtain a1 w1 where
      r: "refreshCoins up dec (a, w) = Some (a1, w1)"
      and w': "w' = w1\<lparr>trace := trace w1 @ [Sleep (dayDuration a)]\<rparr>" by blast
    from refreshCoins_SomeD [OF r] obtain K where
      "trace w1 = trace w @ concat (replicate K [HttpGet (refresh_url a), Sleep Second])
                  @ [HttpGet (refresh_url a)]" by blast
    with w' f(2) have "trace w' = trace w
                  @ concat (replicate K [HttpGet (refresh_url a), Sleep Second])
                  @ [HttpGet (refresh_url a), Sleep Minute]" by simp
    then show ?thesis ..
  qed
qed

text \<open>
  The first tick requests \<^verbatim>\<open>/coins/1388534400000\<close> (2014-01-01), three times against the
  upstream that refuses two connections, and the second tick \<^verbatim>\<open>/coins/1388620800000\<close>
  (2014-01-02).
\<close>

theorem fetch_url_of_tick_witness:
  "New sample_ext '':8080'' ''http://upstream'' = Inr sample_api
   \<and> refresh_url sample_api = ''http://upstream/coins/1388534400000''
   \<and> after_ticks 1 flaky_upstream sample_decoder (sample_api, world0) =
       Some (sample_api\<lparr>coins := [btc, eth], currentDate := \<lparr>ext = 63524217600, nsec = 0\<rparr>\<rparr>,
             \<lparr>calls = 3,
              trace = [Log ''Starting price management daemon with virtual time simulation...'',
                       HttpGet ''http://upstream/coins/1388534400000'', Sleep 1000000000,
                       HttpGet ''http://upstream/coins/1388534400000'', Sleep 1000000000,
                       HttpGet ''http://upstream/coins/1388534400000'', Sleep 60000000000]\<rparr>)
   \<and> refresh_url (sample_api\<lparr>coins := [btc, eth], currentDate := \<lparr>ext = 63524217600, nsec = 0\<rparr>\<rparr>)
       = ''http://upstream/coins/1388620800000''"
proof -
  let ?a = "sample_api\<lparr>coins := [btc, eth], currentDate := \<lparr>ext = 63524217600, nsec = 0\<rparr>\<rparr>"
  let ?w = "\<lparr>calls = 3,
              trace = [Log ''Starting price management daemon with virtual time simulation...'',
                       HttpGet ''http://upstream/coins/1388534400000'', Sleep 1000000000,
                       HttpGet ''http://upstream/coins/1388534400000'', Sleep 1000000000,
                       HttpGet ''http://upstream/coins/1388534400000'', Sleep 60000000000]\<rparr>"
  have run: "after_ticks 1 flaky_upstream sample_decoder (sample_api, world0) = Some (?a, ?w)"
    by code_simp
  have le: "(1::nat) \<le> 106751975096" by simp
  from fetch_url_of_tick [OF New_sample run] le
  have "refresh_url ?a = ''http://upstream'' @ ''/coins/''
          @ fmt_int ((instant (Date 2014 January 1 0 0 0 0 UTC) + int 1 * (24 * Hour)) div 1000000)"
    and "(instant (Date 2014 January 1 0 0 0 0 UTC) + int 1 * (24 * Hour)) div 1000000
          = 1388534400000 + 86400000 * int 1" by blast+
  then have "refresh_url ?a = ''http://upstream/coins/1388620800000''"
    by (simp add: fmt_int_def fmt_digits.simps)
  with run New_sample refresh_url_sample show ?thesis by simp
qed

end
